theory Spec2Isabelle
  imports Complex_Main
begin

section \<open>Schema of the referral store\<close>

text \<open>
  The migrations under \<open>supabase/migrations\<close> define the schema, the row-level
  security (RLS) policies, the identifier generators, the triggers and the public
  read function. Tables are lists of rows, \<open>uuid\<close> keys and timestamps are
  natural numbers, a nullable column is an \<open>option\<close>.
\<close>

type_synonym uuid = nat
type_synonym timestamptz = nat

datatype user_role = admin | doctor | specialist | patient
datatype referral_status = pending | in_progress | completed | cancelled
datatype gender = male | female | other
datatype urgency_level = low | medium | high | critical

text \<open>
  Every one of the five tables ends in the columns \<open>created_at\<close> and
  \<open>updated_at\<close>; they are the common part of all row records, so that the one
  trigger function \<open>update_updated_at_column\<close> is written once for all of them.
\<close>

record stamped =
  created_at :: "timestamptz option"
  updated_at :: "timestamptz option"

record profiles = stamped +
  pr_id :: uuid
  pr_full_name :: string
  pr_email :: string
  pr_phone :: "string option"
  pr_role :: user_role
  pr_hospital_id :: "uuid option"
  pr_department_id :: "uuid option"
  pr_license_number :: "string option"
  pr_specialization :: "string option"

record hospitals = stamped +
  h_id :: uuid
  h_name :: string
  h_address :: string
  h_phone :: string
  h_email :: "string option"
  h_city :: string
  h_state :: string

record departments = stamped +
  d_id :: uuid
  d_name :: string
  d_description :: "string option"
  d_hospital_id :: uuid
  d_head_doctor_id :: "uuid option"

text \<open>
  \<open>patients.patient_id\<close> and \<open>referrals.referral_id\<close> are \<open>TEXT UNIQUE NOT NULL\<close>,
  yet a row arrives at the \<open>BEFORE INSERT\<close> trigger with the column possibly NULL
  (the trigger's \<open>WHEN\<close> clause tests it), so the column is an \<open>option\<close> and the
  NOT NULL constraint is a check of the write operations below.
\<close>

record patients = stamped +
  pt_id :: uuid
  pt_patient_id :: "string option"
  pt_full_name :: string
  pt_date_of_birth :: nat
  pt_gender :: gender
  pt_phone :: "string option"
  pt_email :: "string option"
  pt_address :: "string option"
  pt_emergency_contact_name :: "string option"
  pt_emergency_contact_phone :: "string option"
  pt_medical_history :: "string option"
  pt_current_hospital_id :: "uuid option"

record referrals = stamped +
  r_id :: uuid
  r_referral_id :: "string option"
  r_patient_id :: uuid
  r_referring_doctor_id :: uuid
  r_target_specialist_id :: "uuid option"
  r_origin_hospital_id :: uuid
  r_target_hospital_id :: uuid
  r_target_department_id :: uuid
  r_reason :: string
  r_urgency :: urgency_level
  r_status :: referral_status
  r_notes :: "string option"
  r_specialist_notes :: "string option"
  r_appointment_date :: "timestamptz option"

record database =
  tbl_profiles :: "profiles list"
  tbl_hospitals :: "hospitals list"
  tbl_departments :: "departments list"
  tbl_patients :: "patients list"
  tbl_referrals :: "referrals list"

section \<open>Row-level security\<close>

text \<open>
  SQL's \<open>=\<close> is true only when both sides are non-NULL and equal. The policies
  use comparisons under \<open>AND\<close>, \<open>OR\<close> and \<open>EXISTS\<close> only, never under \<open>NOT\<close>,
  so reading "unknown" as "not true" loses nothing.
\<close>

fun sql_eq :: "'a option \<Rightarrow> 'a option \<Rightarrow> bool" where
  "sql_eq (Some a) (Some b) = (a = b)"
| "sql_eq _ _ = False"

text \<open>
  \<open>EXISTS (SELECT 1 FROM public.profiles p WHERE p.id = auth.uid() AND cond p)\<close>:
  the sub-select every role test of the policies is made of. \<open>uid\<close> is the value
  of \<open>auth.uid()\<close>, NULL for a caller without a session.
\<close>

definition exists_profile :: "database \<Rightarrow> uuid option \<Rightarrow> (profiles \<Rightarrow> bool) \<Rightarrow> bool" where
  "exists_profile db uid cond =
     list_ex (\<lambda>p. sql_eq (Some (pr_id p)) uid \<and> cond p) (tbl_profiles db)"

text \<open>\<open>has_profile_role(_user_id, _role)\<close> of migration 20250927105316.\<close>

definition has_profile_role :: "database \<Rightarrow> uuid option \<Rightarrow> user_role \<Rightarrow> bool" where
  "has_profile_role db user_id role = exists_profile db user_id (\<lambda>p. pr_role p = role)"

datatype policy_cmd = FOR_ALL | FOR_SELECT | FOR_INSERT | FOR_UPDATE | FOR_DELETE
datatype pg_role = PUBLIC | authenticated

type_synonym 'r rls_expr = "database \<Rightarrow> uuid option \<Rightarrow> 'r \<Rightarrow> bool"

record 'r policy =
  pol_name :: string
  pol_cmd :: policy_cmd
  pol_to :: pg_role
  pol_using :: "'r rls_expr option"
  pol_check :: "'r rls_expr option"

text \<open>
  PostgreSQL's semantics of permissive policies: a policy applies to a command when
  it is declared for that command or \<open>FOR ALL\<close>, and to a caller when it is granted
  \<open>TO\<close> the caller's role (the default is \<open>PUBLIC\<close>; \<open>authenticated\<close> is a caller
  with a session). The applicable policies are joined by OR; with none, every row is
  refused. \<open>WITH CHECK\<close> defaults to the \<open>USING\<close> expression.
\<close>

definition pol_applies :: "policy_cmd \<Rightarrow> uuid option \<Rightarrow> 'r policy \<Rightarrow> bool" where
  "pol_applies c uid p =
     ((pol_cmd p = FOR_ALL \<or> pol_cmd p = c) \<and>
      (case pol_to p of PUBLIC \<Rightarrow> True | authenticated \<Rightarrow> uid \<noteq> None))"

definition using_expr :: "'r policy \<Rightarrow> 'r rls_expr" where
  "using_expr p = (case pol_using p of Some e \<Rightarrow> e | None \<Rightarrow> (\<lambda>db uid row. True))"

definition check_expr :: "'r policy \<Rightarrow> 'r rls_expr" where
  "check_expr p = (case pol_check p of Some e \<Rightarrow> e | None \<Rightarrow> using_expr p)"

definition rls_select :: "'r policy list \<Rightarrow> database \<Rightarrow> uuid option \<Rightarrow> 'r \<Rightarrow> bool" where
  "rls_select ps db uid row =
     list_ex (\<lambda>p. pol_applies FOR_SELECT uid p \<and> using_expr p db uid row) ps"

definition rls_insert :: "'r policy list \<Rightarrow> database \<Rightarrow> uuid option \<Rightarrow> 'r \<Rightarrow> bool" where
  "rls_insert ps db uid new =
     list_ex (\<lambda>p. pol_applies FOR_INSERT uid p \<and> check_expr p db uid new) ps"

definition rls_update_using :: "'r policy list \<Rightarrow> database \<Rightarrow> uuid option \<Rightarrow> 'r \<Rightarrow> bool" where
  "rls_update_using ps db uid old =
     list_ex (\<lambda>p. pol_applies FOR_UPDATE uid p \<and> using_expr p db uid old) ps"

definition rls_update_check :: "'r policy list \<Rightarrow> database \<Rightarrow> uuid option \<Rightarrow> 'r \<Rightarrow> bool" where
  "rls_update_check ps db uid new =
     list_ex (\<lambda>p. pol_applies FOR_UPDATE uid p \<and> check_expr p db uid new) ps"

definition rls_delete :: "'r policy list \<Rightarrow> database \<Rightarrow> uuid option \<Rightarrow> 'r \<Rightarrow> bool" where
  "rls_delete ps db uid old =
     list_ex (\<lambda>p. pol_applies FOR_DELETE uid p \<and> using_expr p db uid old) ps"

text \<open>\<open>CREATE POLICY\<close> and \<open>DROP POLICY IF EXISTS\<close> on a table's policy list.\<close>

definition create_policy :: "'r policy \<Rightarrow> 'r policy list \<Rightarrow> 'r policy list" where
  "create_policy p ps = ps @ [p]"

definition drop_policy_if_exists :: "string \<Rightarrow> 'r policy list \<Rightarrow> 'r policy list" where
  "drop_policy_if_exists n ps = filter (\<lambda>p. pol_name p \<noteq> n) ps"

subsection \<open>Policies on profiles\<close>

definition users_view_own_profile :: "profiles policy" where
  "users_view_own_profile =
     \<lparr>pol_name = ''Users can view their own profile'', pol_cmd = FOR_SELECT, pol_to = PUBLIC,
      pol_using = Some (\<lambda>db uid row. sql_eq uid (Some (pr_id row))), pol_check = None\<rparr>"

definition users_update_own_profile :: "profiles policy" where
  "users_update_own_profile =
     \<lparr>pol_name = ''Users can update their own profile'', pol_cmd = FOR_UPDATE, pol_to = PUBLIC,
      pol_using = Some (\<lambda>db uid row. sql_eq uid (Some (pr_id row))), pol_check = None\<rparr>"

definition admins_view_all_profiles_v1 :: "profiles policy" where
  "admins_view_all_profiles_v1 =
     \<lparr>pol_name = ''Admins can view all profiles'', pol_cmd = FOR_SELECT, pol_to = PUBLIC,
      pol_using = Some (\<lambda>db uid row. exists_profile db uid (\<lambda>p. pr_role p = admin)),
      pol_check = None\<rparr>"

definition admins_insert_profiles_v1 :: "profiles policy" where
  "admins_insert_profiles_v1 =
     \<lparr>pol_name = ''Admins can insert profiles'', pol_cmd = FOR_INSERT, pol_to = PUBLIC,
      pol_using = None,
      pol_check = Some (\<lambda>db uid row. exists_profile db uid (\<lambda>p. pr_role p = admin))\<rparr>"

definition admins_view_all_profiles :: "profiles policy" where
  "admins_view_all_profiles =
     \<lparr>pol_name = ''Admins can view all profiles'', pol_cmd = FOR_SELECT, pol_to = PUBLIC,
      pol_using = Some (\<lambda>db uid row. has_profile_role db uid admin), pol_check = None\<rparr>"

definition admins_insert_profiles :: "profiles policy" where
  "admins_insert_profiles =
     \<lparr>pol_name = ''Admins can insert profiles'', pol_cmd = FOR_INSERT, pol_to = PUBLIC,
      pol_using = None, pol_check = Some (\<lambda>db uid row. has_profile_role db uid admin)\<rparr>"

text \<open>
  The initial migration creates four policies; migration 20250927105316 drops and
  re-creates the two admin policies over \<open>has_profile_role\<close>.
\<close>

definition profiles_policies :: "profiles policy list" where
  "profiles_policies =
     create_policy admins_insert_profiles
       (drop_policy_if_exists ''Admins can insert profiles''
         (create_policy admins_view_all_profiles
           (drop_policy_if_exists ''Admins can view all profiles''
             [users_view_own_profile, users_update_own_profile,
              admins_view_all_profiles_v1, admins_insert_profiles_v1])))"

subsection \<open>Policies on patients\<close>

definition doctors_view_patients_at_hospital :: "patients policy" where
  "doctors_view_patients_at_hospital =
     \<lparr>pol_name = ''Doctors can view patients at their hospital'', pol_cmd = FOR_SELECT,
      pol_to = PUBLIC,
      pol_using = Some (\<lambda>db uid row. exists_profile db uid (\<lambda>p.
         pr_role p \<in> set [doctor, specialist, admin] \<and>
         (sql_eq (pr_hospital_id p) (pt_current_hospital_id row) \<or> pr_role p = admin))),
      pol_check = None\<rparr>"

definition doctors_manage_patients :: "patients policy" where
  "doctors_manage_patients =
     \<lparr>pol_name = ''Doctors can manage patients'', pol_cmd = FOR_ALL, pol_to = PUBLIC,
      pol_using = Some (\<lambda>db uid row. exists_profile db uid (\<lambda>p.
         pr_role p \<in> set [doctor, admin])),
      pol_check = None\<rparr>"

definition patients_policies :: "patients policy list" where
  "patients_policies = [doctors_view_patients_at_hospital, doctors_manage_patients]"

subsection \<open>Policies on referrals\<close>

definition doctors_view_created_referrals :: "referrals policy" where
  "doctors_view_created_referrals =
     \<lparr>pol_name = ''Doctors can view referrals they created'', pol_cmd = FOR_SELECT,
      pol_to = PUBLIC,
      pol_using = Some (\<lambda>db uid row. sql_eq (Some (r_referring_doctor_id row)) uid),
      pol_check = None\<rparr>"

definition specialists_view_assigned_referrals :: "referrals policy" where
  "specialists_view_assigned_referrals =
     \<lparr>pol_name = ''Specialists can view referrals assigned to them'', pol_cmd = FOR_SELECT,
      pol_to = PUBLIC,
      pol_using = Some (\<lambda>db uid row. sql_eq (r_target_specialist_id row) uid),
      pol_check = None\<rparr>"

definition specialists_at_target_view_referrals :: "referrals policy" where
  "specialists_at_target_view_referrals =
     \<lparr>pol_name = ''Specialists at target hospital can view referrals'', pol_cmd = FOR_SELECT,
      pol_to = PUBLIC,
      pol_using = Some (\<lambda>db uid row. exists_profile db uid (\<lambda>p.
         pr_role p = specialist \<and>
         sql_eq (pr_hospital_id p) (Some (r_target_hospital_id row)))),
      pol_check = None\<rparr>"

definition admins_view_all_referrals :: "referrals policy" where
  "admins_view_all_referrals =
     \<lparr>pol_name = ''Admins can view all referrals'', pol_cmd = FOR_SELECT, pol_to = PUBLIC,
      pol_using = Some (\<lambda>db uid row. exists_profile db uid (\<lambda>p. pr_role p = admin)),
      pol_check = None\<rparr>"

definition doctors_create_referrals :: "referrals policy" where
  "doctors_create_referrals =
     \<lparr>pol_name = ''Doctors can create referrals'', pol_cmd = FOR_INSERT, pol_to = PUBLIC,
      pol_using = None,
      pol_check = Some (\<lambda>db uid row.
         sql_eq (Some (r_referring_doctor_id row)) uid \<and>
         exists_profile db uid (\<lambda>p. pr_role p \<in> set [doctor, admin]))\<rparr>"

definition specialists_update_assigned_referrals :: "referrals policy" where
  "specialists_update_assigned_referrals =
     \<lparr>pol_name = ''Specialists can update assigned referrals'', pol_cmd = FOR_UPDATE,
      pol_to = PUBLIC,
      pol_using = Some (\<lambda>db uid row.
         sql_eq (r_target_specialist_id row) uid \<or>
         exists_profile db uid (\<lambda>p.
           pr_role p = specialist \<and>
           sql_eq (pr_hospital_id p) (Some (r_target_hospital_id row)))),
      pol_check = None\<rparr>"

definition medical_staff_create_referrals :: "referrals policy" where
  "medical_staff_create_referrals =
     \<lparr>pol_name = ''Medical staff can create referrals'', pol_cmd = FOR_INSERT, pol_to = PUBLIC,
      pol_using = None,
      pol_check = Some (\<lambda>db uid row.
         sql_eq (Some (r_referring_doctor_id row)) uid \<and>
         exists_profile db uid (\<lambda>p. pr_role p \<in> set [doctor, specialist, admin]))\<rparr>"

text \<open>
  The initial migration creates six policies; migration 20250928152621 drops
  "Doctors can create referrals" and creates "Medical staff can create referrals".
\<close>

definition referrals_policies :: "referrals policy list" where
  "referrals_policies =
     create_policy medical_staff_create_referrals
       (drop_policy_if_exists ''Doctors can create referrals''
         [doctors_view_created_referrals, specialists_view_assigned_referrals,
          specialists_at_target_view_referrals, admins_view_all_referrals,
          doctors_create_referrals, specialists_update_assigned_referrals])"

subsection \<open>Policies on hospitals and departments\<close>

definition all_view_hospitals :: "hospitals policy" where
  "all_view_hospitals =
     \<lparr>pol_name = ''All authenticated users can view hospitals'', pol_cmd = FOR_SELECT,
      pol_to = authenticated, pol_using = Some (\<lambda>db uid row. True), pol_check = None\<rparr>"

definition admins_manage_hospitals :: "hospitals policy" where
  "admins_manage_hospitals =
     \<lparr>pol_name = ''Admins can manage hospitals'', pol_cmd = FOR_ALL, pol_to = PUBLIC,
      pol_using = Some (\<lambda>db uid row. exists_profile db uid (\<lambda>p. pr_role p = admin)),
      pol_check = None\<rparr>"

definition hospitals_policies :: "hospitals policy list" where
  "hospitals_policies = [all_view_hospitals, admins_manage_hospitals]"

definition all_view_departments :: "departments policy" where
  "all_view_departments =
     \<lparr>pol_name = ''All authenticated users can view departments'', pol_cmd = FOR_SELECT,
      pol_to = authenticated, pol_using = Some (\<lambda>db uid row. True), pol_check = None\<rparr>"

definition admins_manage_departments :: "departments policy" where
  "admins_manage_departments =
     \<lparr>pol_name = ''Admins can manage departments'', pol_cmd = FOR_ALL, pol_to = PUBLIC,
      pol_using = Some (\<lambda>db uid row. exists_profile db uid (\<lambda>p. pr_role p = admin)),
      pol_check = None\<rparr>"

definition medical_staff_manage_departments :: "departments policy" where
  "medical_staff_manage_departments =
     \<lparr>pol_name = ''Medical staff can manage departments'', pol_cmd = FOR_ALL, pol_to = PUBLIC,
      pol_using = Some (\<lambda>db uid row. exists_profile db uid (\<lambda>p.
         pr_role p \<in> set [doctor, admin])),
      pol_check = None\<rparr>"

definition departments_policies :: "departments policy list" where
  "departments_policies =
     create_policy medical_staff_manage_departments
       (drop_policy_if_exists ''Admins can manage departments''
         [all_view_departments, admins_manage_departments])"

section \<open>Identifier generation\<close>

text \<open>
  The cast \<open>::TEXT\<close> of a non-negative whole number: its decimal digits, no sign, no
  leading zero.
\<close>

fun to_text :: "nat \<Rightarrow> string" where
  "to_text n =
     (if n < 10 then [''0123456789'' ! n]
      else to_text (n div 10) @ [''0123456789'' ! (n mod 10)])"

declare to_text.simps [simp del]

text \<open>
  The number a string of decimal digits denotes (leading zeros allowed): the inverse
  of \<open>to_text\<close>, used to tell the suffixes of different numbers apart.
\<close>

definition digits_value :: "string \<Rightarrow> nat" where
  "digits_value s = foldl (\<lambda>a c. 10 * a + (of_char c - 48)) 0 s"

text \<open>
  \<open>LPAD(s, n, fill)\<close>: \<open>s\<close> extended on the left with \<open>fill\<close> (repeated, cut to fit)
  up to length \<open>n\<close>; a longer \<open>s\<close> is cut to its first \<open>n\<close> characters.
\<close>

definition lpad :: "string \<Rightarrow> nat \<Rightarrow> string \<Rightarrow> string" where
  "lpad s n fill =
     (if n \<le> length s then take n s
      else take (n - length s) (concat (replicate (n - length s) fill)) @ s)"

text \<open>
  \<open>TO_CHAR(NOW(), 'YYYY')\<close> of a year AD: the year in decimal, zero-padded to four
  digits, longer from the year 10000 on.
\<close>

definition to_char_YYYY :: "nat \<Rightarrow> string" where
  "to_char_YYYY y = replicate (4 - length (to_text y)) (CHR ''0'') @ to_text y"

text \<open>
  \<open>LPAD(FLOOR(RANDOM() * 999999)::TEXT, 6, '0')\<close>, for the value \<open>rnd\<close> that
  \<open>RANDOM()\<close> returned (\<open>0 \<le> rnd < 1\<close>).
\<close>

definition random_suffix :: "real \<Rightarrow> string" where
  "random_suffix rnd = lpad (to_text (nat \<lfloor>rnd * 999999\<rfloor>)) 6 ''0''"

text \<open>
  What a statement sees of its surroundings: \<open>NOW()\<close>, the year of \<open>NOW()\<close>, and the
  values the successive calls of \<open>RANDOM()\<close> return. The list of random values is
  finite: a generator loop that uses all of them without leaving has not returned,
  which is the result \<open>None\<close>.
\<close>

record env =
  now :: timestamptz
  now_yyyy :: nat
  randoms :: "real list"

fun generate_referral_id_loop :: "database \<Rightarrow> nat \<Rightarrow> real list \<Rightarrow> string option" where
  "generate_referral_id_loop db yyyy [] = None"
| "generate_referral_id_loop db yyyy (rnd # rest) =
     (let new_id = ''REF-'' @ to_char_YYYY yyyy @ ''-'' @ random_suffix rnd in
      if \<not> list_ex (\<lambda>r. sql_eq (r_referral_id r) (Some new_id)) (tbl_referrals db)
      then Some new_id
      else generate_referral_id_loop db yyyy rest)"

definition generate_referral_id :: "database \<Rightarrow> env \<Rightarrow> string option" where
  "generate_referral_id db e = generate_referral_id_loop db (now_yyyy e) (randoms e)"

fun generate_patient_id_loop :: "database \<Rightarrow> nat \<Rightarrow> real list \<Rightarrow> string option" where
  "generate_patient_id_loop db yyyy [] = None"
| "generate_patient_id_loop db yyyy (rnd # rest) =
     (let new_id = ''PAT-'' @ to_char_YYYY yyyy @ ''-'' @ random_suffix rnd in
      if \<not> list_ex (\<lambda>p. sql_eq (pt_patient_id p) (Some new_id)) (tbl_patients db)
      then Some new_id
      else generate_patient_id_loop db yyyy rest)"

definition generate_patient_id :: "database \<Rightarrow> env \<Rightarrow> string option" where
  "generate_patient_id db e = generate_patient_id_loop db (now_yyyy e) (randoms e)"

text \<open>The format \<open>^(PAT|REF)-\d{4}-\d{6}$\<close> as a test on strings.\<close>

definition is_digit :: "char \<Rightarrow> bool" where
  "is_digit c = (c \<in> set ''0123456789'')"

definition matches_id_format :: "string \<Rightarrow> bool" where
  "matches_id_format s =
     (length s = 15 \<and>
      (take 4 s = ''PAT-'' \<or> take 4 s = ''REF-'') \<and>
      list_all is_digit (take 4 (drop 4 s)) \<and>
      s ! 8 = CHR ''-'' \<and>
      list_all is_digit (drop 9 s))"

section \<open>Triggers\<close>

text \<open>
  \<open>set_referral_id\<close> and \<open>set_patient_id\<close> overwrite the identifier of \<open>NEW\<close> with a
  generated one; their triggers fire \<open>BEFORE INSERT ... WHEN (NEW.<id> IS NULL)\<close>.
\<close>

definition set_referral_id :: "database \<Rightarrow> env \<Rightarrow> referrals \<Rightarrow> referrals option" where
  "set_referral_id db e NEW =
     map_option (\<lambda>i. NEW\<lparr>r_referral_id := Some i\<rparr>) (generate_referral_id db e)"

definition set_referral_id_trigger :: "database \<Rightarrow> env \<Rightarrow> referrals \<Rightarrow> referrals option" where
  "set_referral_id_trigger db e NEW =
     (if r_referral_id NEW = None then set_referral_id db e NEW else Some NEW)"

definition set_patient_id :: "database \<Rightarrow> env \<Rightarrow> patients \<Rightarrow> patients option" where
  "set_patient_id db e NEW =
     map_option (\<lambda>i. NEW\<lparr>pt_patient_id := Some i\<rparr>) (generate_patient_id db e)"

definition set_patient_id_trigger :: "database \<Rightarrow> env \<Rightarrow> patients \<Rightarrow> patients option" where
  "set_patient_id_trigger db e NEW =
     (if pt_patient_id NEW = None then set_patient_id db e NEW else Some NEW)"

text \<open>
  \<open>update_updated_at_column\<close>: \<open>NEW.updated_at = NOW(); RETURN NEW\<close>. One function,
  attached \<open>BEFORE UPDATE ... FOR EACH ROW\<close> to profiles, hospitals, departments,
  patients and referrals.
\<close>

definition update_updated_at_column :: "timestamptz \<Rightarrow> 'a stamped_scheme \<Rightarrow> 'a stamped_scheme" where
  "update_updated_at_column t NEW = NEW\<lparr>updated_at := Some t\<rparr>"

section \<open>Writing rows\<close>

datatype db_error =
  rls_violation | not_null_violation | unique_violation | foreign_key_violation

text \<open>
  What an \<open>UPDATE\<close> does to one row: a row the \<open>USING\<close> expressions refuse is
  passed over without error; otherwise the \<open>SET\<close> clause gives \<open>NEW\<close>, the
  \<open>BEFORE UPDATE\<close> trigger runs on it, and the result must pass \<open>WITH CHECK\<close>.
  The \<open>SET\<close> clause is a function from the old row to the new one.
\<close>

datatype 'r row_outcome = skipped | failed db_error | written 'r

definition update_row ::
  "('a stamped_scheme) policy list \<Rightarrow> database \<Rightarrow> timestamptz \<Rightarrow> uuid option \<Rightarrow>
   ('a stamped_scheme \<Rightarrow> 'a stamped_scheme) \<Rightarrow> 'a stamped_scheme \<Rightarrow>
   ('a stamped_scheme) row_outcome" where
  "update_row ps db t uid set_clause OLD =
     (if \<not> rls_update_using ps db uid OLD then skipped
      else let NEW = update_updated_at_column t (set_clause OLD) in
        if \<not> rls_update_check ps db uid NEW then failed rls_violation
        else written NEW)"

text \<open>The foreign keys of referrals and of patients.\<close>

definition referral_fks_ok :: "database \<Rightarrow> referrals \<Rightarrow> bool" where
  "referral_fks_ok db r =
     (list_ex (\<lambda>p. pt_id p = r_patient_id r) (tbl_patients db) \<and>
      list_ex (\<lambda>p. pr_id p = r_referring_doctor_id r) (tbl_profiles db) \<and>
      (case r_target_specialist_id r of None \<Rightarrow> True
       | Some s \<Rightarrow> list_ex (\<lambda>p. pr_id p = s) (tbl_profiles db)) \<and>
      list_ex (\<lambda>h. h_id h = r_origin_hospital_id r) (tbl_hospitals db) \<and>
      list_ex (\<lambda>h. h_id h = r_target_hospital_id r) (tbl_hospitals db) \<and>
      list_ex (\<lambda>d. d_id d = r_target_department_id r) (tbl_departments db))"

definition patient_fks_ok :: "database \<Rightarrow> patients \<Rightarrow> bool" where
  "patient_fks_ok db p =
     (case pt_current_hospital_id p of None \<Rightarrow> True
      | Some h \<Rightarrow> list_ex (\<lambda>x. h_id x = h) (tbl_hospitals db))"

text \<open>
  \<open>INSERT INTO referrals\<close> of one row, the column defaults already filled in: the
  \<open>BEFORE INSERT\<close> trigger, the \<open>WITH CHECK\<close> of the policies, \<open>NOT NULL\<close>, the
  primary key and \<open>UNIQUE\<close>, the foreign keys. The outer \<open>None\<close> is a generator
  loop that has not returned.
\<close>

definition insert_referral ::
  "database \<Rightarrow> env \<Rightarrow> uuid option \<Rightarrow> referrals \<Rightarrow> (db_error + database) option" where
  "insert_referral db e uid NEW =
     (case set_referral_id_trigger db e NEW of
        None \<Rightarrow> None
      | Some row \<Rightarrow> Some
         (if \<not> rls_insert referrals_policies db uid row then Inl rls_violation
          else if r_referral_id row = None then Inl not_null_violation
          else if list_ex (\<lambda>r. r_id r = r_id row \<or> sql_eq (r_referral_id r) (r_referral_id row))
                    (tbl_referrals db)
            then Inl unique_violation
          else if \<not> referral_fks_ok db row then Inl foreign_key_violation
          else Inr (db\<lparr>tbl_referrals := tbl_referrals db @ [row]\<rparr>)))"

definition insert_patient ::
  "database \<Rightarrow> env \<Rightarrow> uuid option \<Rightarrow> patients \<Rightarrow> (db_error + database) option" where
  "insert_patient db e uid NEW =
     (case set_patient_id_trigger db e NEW of
        None \<Rightarrow> None
      | Some row \<Rightarrow> Some
         (if \<not> rls_insert patients_policies db uid row then Inl rls_violation
          else if pt_patient_id row = None then Inl not_null_violation
          else if list_ex (\<lambda>p. pt_id p = pt_id row \<or> sql_eq (pt_patient_id p) (pt_patient_id row))
                    (tbl_patients db)
            then Inl unique_violation
          else if \<not> patient_fks_ok db row then Inl foreign_key_violation
          else Inr (db\<lparr>tbl_patients := tbl_patients db @ [row]\<rparr>)))"

text \<open>
  \<open>UPDATE referrals SET ... WHERE id = key\<close> and the same on patients. A patient
  whose primary key changes while a referral points at it violates the referral's
  foreign key (no \<open>ON UPDATE\<close> action is declared).
\<close>

definition update_referral ::
  "database \<Rightarrow> env \<Rightarrow> uuid option \<Rightarrow> uuid \<Rightarrow> (referrals \<Rightarrow> referrals) \<Rightarrow> db_error + database" where
  "update_referral db e uid key set_clause =
     (case find (\<lambda>r. r_id r = key) (tbl_referrals db) of
        None \<Rightarrow> Inr db
      | Some OLD \<Rightarrow>
         (case update_row referrals_policies db (now e) uid set_clause OLD of
            skipped \<Rightarrow> Inr db
          | failed err \<Rightarrow> Inl err
          | written NEW \<Rightarrow>
             if r_referral_id NEW = None then Inl not_null_violation
             else if list_ex (\<lambda>r. r_id r = r_id NEW \<or> sql_eq (r_referral_id r) (r_referral_id NEW))
                       (filter (\<lambda>r. r_id r \<noteq> key) (tbl_referrals db))
               then Inl unique_violation
             else if \<not> referral_fks_ok db NEW then Inl foreign_key_violation
             else Inr (db\<lparr>tbl_referrals :=
                          map (\<lambda>r. if r_id r = key then NEW else r) (tbl_referrals db)\<rparr>)))"

definition update_patient ::
  "database \<Rightarrow> env \<Rightarrow> uuid option \<Rightarrow> uuid \<Rightarrow> (patients \<Rightarrow> patients) \<Rightarrow> db_error + database" where
  "update_patient db e uid key set_clause =
     (case find (\<lambda>p. pt_id p = key) (tbl_patients db) of
        None \<Rightarrow> Inr db
      | Some OLD \<Rightarrow>
         (case update_row patients_policies db (now e) uid set_clause OLD of
            skipped \<Rightarrow> Inr db
          | failed err \<Rightarrow> Inl err
          | written NEW \<Rightarrow>
             if pt_patient_id NEW = None then Inl not_null_violation
             else if list_ex (\<lambda>p. pt_id p = pt_id NEW \<or> sql_eq (pt_patient_id p) (pt_patient_id NEW))
                       (filter (\<lambda>p. pt_id p \<noteq> key) (tbl_patients db))
               then Inl unique_violation
             else if \<not> patient_fks_ok db NEW \<or>
                     (pt_id NEW \<noteq> key \<and> list_ex (\<lambda>r. r_patient_id r = key) (tbl_referrals db))
               then Inl foreign_key_violation
             else Inr (db\<lparr>tbl_patients :=
                          map (\<lambda>p. if pt_id p = key then NEW else p) (tbl_patients db)\<rparr>)))"

text \<open>
  \<open>DELETE FROM referrals WHERE id = key\<close> removes the rows the \<open>DELETE\<close> policies
  admit. \<open>DELETE FROM patients WHERE id = key\<close> does the same on patients, and
  \<open>referrals.patient_id ... REFERENCES public.patients(id) ON DELETE CASCADE\<close> then
  removes the referrals of every deleted patient; the cascade is a referential
  action, which PostgreSQL runs without consulting the policies of referrals.
\<close>

definition delete_referral :: "database \<Rightarrow> uuid option \<Rightarrow> uuid \<Rightarrow> database" where
  "delete_referral db uid key =
     db\<lparr>tbl_referrals :=
          filter (\<lambda>r. \<not> (r_id r = key \<and> rls_delete referrals_policies db uid r))
            (tbl_referrals db)\<rparr>"

definition delete_patient :: "database \<Rightarrow> uuid option \<Rightarrow> uuid \<Rightarrow> database" where
  "delete_patient db uid key =
     (let deleted = filter (\<lambda>p. pt_id p = key \<and> rls_delete patients_policies db uid p)
                      (tbl_patients db)
      in db\<lparr>tbl_patients :=
               filter (\<lambda>p. \<not> (pt_id p = key \<and> rls_delete patients_policies db uid p))
                 (tbl_patients db),
             tbl_referrals :=
               filter (\<lambda>r. \<not> list_ex (\<lambda>p. pt_id p = r_patient_id r) deleted)
                 (tbl_referrals db)\<rparr>)"

section \<open>The public read function\<close>

text \<open>
  \<open>UPPER\<close> is PostgreSQL's function, not the repository's, and what it does to a
  letter outside ASCII depends on the locale of the database: the query takes it as
  the parameter \<open>UPPER\<close>, and what is proved of the query holds for every such
  function. \<open>upper_c_locale\<close> is \<open>UPPER\<close> in the \<open>C\<close> locale, which changes the
  letters \<open>a\<close> to \<open>z\<close> and nothing else; it serves to evaluate the query on
  concrete ASCII identifiers, on which every locale agrees with it.
\<close>

definition upper_c_char :: "char \<Rightarrow> char" where
  "upper_c_char c =
     (let n = (of_char c :: nat) in if 97 \<le> n \<and> n \<le> 122 then char_of (n - 32) else c)"

definition upper_c_locale :: "string \<Rightarrow> string" where
  "upper_c_locale s = map upper_c_char s"

text \<open>The columns of \<open>RETURNS TABLE (...)\<close>, in the order of the declaration.\<close>

record referral_public =
  out_referral_id :: "string option"
  out_status :: referral_status
  out_urgency :: urgency_level
  out_reason :: string
  out_notes :: "string option"
  out_appointment_date :: "timestamptz option"
  out_created_at :: "timestamptz option"
  out_patient_full_name :: string
  out_patient_id :: "string option"
  out_referring_doctor_name :: "string option"
  out_target_specialist_name :: "string option"
  out_origin_hospital_name :: string
  out_origin_hospital_city :: string
  out_origin_hospital_state :: string
  out_target_hospital_name :: string
  out_target_hospital_city :: string
  out_target_hospital_state :: string
  out_target_department_name :: string
  out_target_department_description :: "string option"

text \<open>\<open>LEFT JOIN\<close>: the matching rows, or one all-NULL row when there is none.\<close>

definition left_join :: "('a \<Rightarrow> bool) \<Rightarrow> 'a list \<Rightarrow> 'a option list" where
  "left_join on_cond xs =
     (case filter on_cond xs of [] \<Rightarrow> [None] | ys \<Rightarrow> map Some ys)"

text \<open>The \<open>SELECT\<close> list, for one row of the join.\<close>

definition select_list ::
  "referrals \<Rightarrow> patients \<Rightarrow> profiles option \<Rightarrow> profiles option \<Rightarrow>
   hospitals \<Rightarrow> hospitals \<Rightarrow> departments \<Rightarrow> referral_public" where
  "select_list r p d s oh th td =
     \<lparr>out_referral_id = r_referral_id r,
      out_status = r_status r,
      out_urgency = r_urgency r,
      out_reason = r_reason r,
      out_notes = r_notes r,
      out_appointment_date = r_appointment_date r,
      out_created_at = created_at r,
      out_patient_full_name = pt_full_name p,
      out_patient_id = pt_patient_id p,
      out_referring_doctor_name = map_option pr_full_name d,
      out_target_specialist_name = map_option pr_full_name s,
      out_origin_hospital_name = h_name oh,
      out_origin_hospital_city = h_city oh,
      out_origin_hospital_state = h_state oh,
      out_target_hospital_name = h_name th,
      out_target_hospital_city = h_city th,
      out_target_hospital_state = h_state th,
      out_target_department_name = d_name td,
      out_target_department_description = d_description td\<rparr>"

text \<open>
  The function is \<open>SECURITY DEFINER\<close>: it reads the tables as their owner, with no
  policy applied. \<open>referral_public_rows\<close> is the query up to its \<open>WHERE\<close> clause,
  \<open>get_referral_public\<close> adds \<open>LIMIT 1\<close>.
\<close>

definition referral_public_rows ::
  "(string \<Rightarrow> string) \<Rightarrow> database \<Rightarrow> string \<Rightarrow> referral_public list" where
  "referral_public_rows UPPER db referral_id =
     [select_list r p d s oh th td.
        r \<leftarrow> tbl_referrals db,
        p \<leftarrow> tbl_patients db, pt_id p = r_patient_id r,
        d \<leftarrow> left_join (\<lambda>d. pr_id d = r_referring_doctor_id r) (tbl_profiles db),
        s \<leftarrow> left_join (\<lambda>s. sql_eq (Some (pr_id s)) (r_target_specialist_id r)) (tbl_profiles db),
        oh \<leftarrow> tbl_hospitals db, h_id oh = r_origin_hospital_id r,
        th \<leftarrow> tbl_hospitals db, h_id th = r_target_hospital_id r,
        td \<leftarrow> tbl_departments db, d_id td = r_target_department_id r,
        sql_eq (r_referral_id r) (Some (UPPER referral_id))]"

definition get_referral_public ::
  "(string \<Rightarrow> string) \<Rightarrow> database \<Rightarrow> string \<Rightarrow> referral_public list" where
  "get_referral_public UPPER db referral_id = take 1 (referral_public_rows UPPER db referral_id)"

section \<open>Constraints of the schema\<close>

text \<open>
  \<open>PRIMARY KEY\<close> on \<open>id\<close> and \<open>UNIQUE NOT NULL\<close> on the business identifier, for
  patients and referrals, and the foreign keys of referrals, as predicates on a
  database.
\<close>

definition unique_not_null :: "'a option list \<Rightarrow> bool" where
  "unique_not_null xs = (distinct xs \<and> None \<notin> set xs)"

definition table_constraints :: "database \<Rightarrow> bool" where
  "table_constraints db =
     (distinct (map pt_id (tbl_patients db)) \<and>
      unique_not_null (map pt_patient_id (tbl_patients db)) \<and>
      distinct (map r_id (tbl_referrals db)) \<and>
      unique_not_null (map r_referral_id (tbl_referrals db)))"

definition referrals_fk_integrity :: "database \<Rightarrow> bool" where
  "referrals_fk_integrity db = list_all (referral_fks_ok db) (tbl_referrals db)"

section \<open>A small database\<close>

text \<open>
  Two hospitals, one department, five profiles (one per role, and a second
  specialist), one patient and one referral from hospital 10 to hospital 20: the
  concrete inputs of the evaluations below.
\<close>

definition hospital_a :: hospitals where
  "hospital_a = \<lparr>created_at = Some 1, updated_at = Some 1, h_id = 10, h_name = ''Alpha'',
     h_address = ''1 Main'', h_phone = ''100'', h_email = None, h_city = ''Kampala'',
     h_state = ''Central''\<rparr>"

definition hospital_b :: hospitals where
  "hospital_b = \<lparr>created_at = Some 1, updated_at = Some 1, h_id = 20, h_name = ''Beta'',
     h_address = ''2 Main'', h_phone = ''200'', h_email = None, h_city = ''Gulu'',
     h_state = ''Northern''\<rparr>"

definition department_x :: departments where
  "department_x = \<lparr>created_at = Some 1, updated_at = Some 1, d_id = 30, d_name = ''Cardiology'',
     d_description = Some ''Heart'', d_hospital_id = 20, d_head_doctor_id = None\<rparr>"

definition mk_profile :: "uuid \<Rightarrow> string \<Rightarrow> user_role \<Rightarrow> uuid option \<Rightarrow> profiles" where
  "mk_profile i n ro h = \<lparr>created_at = Some 1, updated_at = Some 1, pr_id = i, pr_full_name = n,
     pr_email = n @ ''@example.org'', pr_phone = Some ''555'', pr_role = ro, pr_hospital_id = h, pr_department_id = None,
     pr_license_number = None, pr_specialization = None\<rparr>"

definition profile_admin :: profiles where
  "profile_admin = mk_profile 1 ''Ada'' admin None"

definition profile_doctor :: profiles where
  "profile_doctor = mk_profile 2 ''Dan'' doctor (Some 10)"

definition profile_specialist :: profiles where
  "profile_specialist = mk_profile 3 ''Sam'' specialist (Some 20)"

definition profile_patient :: profiles where
  "profile_patient = mk_profile 4 ''Pat'' patient None"

definition profile_specialist_a :: profiles where
  "profile_specialist_a = mk_profile 5 ''Sue'' specialist (Some 10)"

definition patient_p :: patients where
  "patient_p = \<lparr>created_at = Some 2, updated_at = Some 2, pt_id = 100,
     pt_patient_id = Some ''PAT-2025-000001'', pt_full_name = ''Pia'', pt_date_of_birth = 0,
     pt_gender = female, pt_phone = Some ''0700'', pt_email = Some ''pia@example.org'',
     pt_address = Some ''3 Hill'',
     pt_emergency_contact_name = None, pt_emergency_contact_phone = None,
     pt_medical_history = Some ''asthma'', pt_current_hospital_id = Some 20\<rparr>"

definition referral_1 :: referrals where
  "referral_1 = \<lparr>created_at = Some 3, updated_at = Some 4, r_id = 200,
     r_referral_id = Some ''REF-2025-000001'', r_patient_id = 100, r_referring_doctor_id = 2,
     r_target_specialist_id = None, r_origin_hospital_id = 10, r_target_hospital_id = 20,
     r_target_department_id = 30, r_reason = ''murmur'', r_urgency = medium,
     r_status = pending, r_notes = Some ''bring scans'',
     r_specialist_notes = Some ''private'', r_appointment_date = Some 90\<rparr>"

definition demo_db :: database where
  "demo_db = \<lparr>tbl_profiles = [profile_admin, profile_doctor, profile_specialist,
                                 profile_patient, profile_specialist_a],
               tbl_hospitals = [hospital_a, hospital_b],
               tbl_departments = [department_x],
               tbl_patients = [patient_p],
               tbl_referrals = [referral_1]\<rparr>"

definition demo_env :: env where
  "demo_env = \<lparr>now = 50, now_yyyy = 2025, randoms = [1 / 999999, 1 / 2]\<rparr>"

section \<open>Facts about the policy engine\<close>

lemmas demo_defs = demo_db_def demo_env_def referral_1_def patient_p_def profile_admin_def
  profile_doctor_def profile_specialist_def profile_patient_def profile_specialist_a_def
  mk_profile_def department_x_def hospital_a_def hospital_b_def

lemma sql_eq_Some_left: "sql_eq (Some a) u \<longleftrightarrow> u = Some a"
  by (cases u) auto

lemma sql_eq_Some_right: "sql_eq u (Some a) \<longleftrightarrow> u = Some a"
  by (cases u) auto

lemma exists_profile_iff:
  "exists_profile db uid cond \<longleftrightarrow> (\<exists>p\<in>set (tbl_profiles db). uid = Some (pr_id p) \<and> cond p)"
  by (simp add: exists_profile_def list_ex_iff sql_eq_Some_left)

lemma pk_profile_unique:
  assumes "distinct (map pr_id (tbl_profiles db))" "c \<in> set (tbl_profiles db)"
    "p \<in> set (tbl_profiles db)" "pr_id p = pr_id c"
  shows "p = c"
proof -
  have "inj_on pr_id (set (tbl_profiles db))"
    using assms(1) by (simp add: distinct_map)
  then show ?thesis
    using assms(2-4) by (simp add: inj_on_def)
qed

lemma exists_profile_caller:
  assumes pk: "distinct (map pr_id (tbl_profiles db))" and c: "c \<in> set (tbl_profiles db)"
  shows "exists_profile db (Some (pr_id c)) cond \<longleftrightarrow> cond c"
proof
  assume "exists_profile db (Some (pr_id c)) cond"
  then obtain p where p: "p \<in> set (tbl_profiles db)" "pr_id p = pr_id c" "cond p"
    by (auto simp: exists_profile_iff)
  then have "p = c" using pk_profile_unique[OF pk c] by simp
  then show "cond c" using p by simp
next
  assume "cond c"
  then show "exists_profile db (Some (pr_id c)) cond"
    using c by (auto simp: exists_profile_iff)
qed

lemma referrals_policies_eq:
  "referrals_policies =
     [doctors_view_created_referrals, specialists_view_assigned_referrals,
      specialists_at_target_view_referrals, admins_view_all_referrals,
      specialists_update_assigned_referrals, medical_staff_create_referrals]"
  by (simp add: referrals_policies_def create_policy_def drop_policy_if_exists_def
      doctors_view_created_referrals_def specialists_view_assigned_referrals_def
      specialists_at_target_view_referrals_def admins_view_all_referrals_def
      doctors_create_referrals_def specialists_update_assigned_referrals_def)

lemma profiles_policies_eq:
  "profiles_policies =
     [users_view_own_profile, users_update_own_profile,
      admins_view_all_profiles, admins_insert_profiles]"
  by (simp add: profiles_policies_def create_policy_def drop_policy_if_exists_def
      users_view_own_profile_def users_update_own_profile_def
      admins_view_all_profiles_v1_def admins_insert_profiles_v1_def admins_view_all_profiles_def)

lemma rls_insert_referrals:
  "rls_insert referrals_policies db uid r \<longleftrightarrow>
     sql_eq (Some (r_referring_doctor_id r)) uid \<and>
     exists_profile db uid (\<lambda>p. pr_role p \<in> set [doctor, specialist, admin])"
  by (simp add: referrals_policies_eq rls_insert_def pol_applies_def check_expr_def using_expr_def
      doctors_view_created_referrals_def specialists_view_assigned_referrals_def
      specialists_at_target_view_referrals_def admins_view_all_referrals_def
      medical_staff_create_referrals_def specialists_update_assigned_referrals_def)

lemma rls_update_using_referrals:
  "rls_update_using referrals_policies db uid r \<longleftrightarrow>
     sql_eq (r_target_specialist_id r) uid \<or>
     exists_profile db uid (\<lambda>p. pr_role p = specialist \<and>
        sql_eq (pr_hospital_id p) (Some (r_target_hospital_id r)))"
  by (simp add: referrals_policies_eq rls_update_using_def pol_applies_def check_expr_def using_expr_def
      doctors_view_created_referrals_def specialists_view_assigned_referrals_def
      specialists_at_target_view_referrals_def admins_view_all_referrals_def
      medical_staff_create_referrals_def specialists_update_assigned_referrals_def)

lemma rls_update_check_referrals:
  "rls_update_check referrals_policies db uid r = rls_update_using referrals_policies db uid r"
  by (simp add: referrals_policies_eq rls_update_using_def rls_update_check_def pol_applies_def check_expr_def using_expr_def
      doctors_view_created_referrals_def specialists_view_assigned_referrals_def
      specialists_at_target_view_referrals_def admins_view_all_referrals_def
      medical_staff_create_referrals_def specialists_update_assigned_referrals_def)

lemma rls_delete_referrals: "rls_delete referrals_policies db uid r = False"
  by (simp add: referrals_policies_eq rls_delete_def pol_applies_def check_expr_def using_expr_def
      doctors_view_created_referrals_def specialists_view_assigned_referrals_def
      specialists_at_target_view_referrals_def admins_view_all_referrals_def
      medical_staff_create_referrals_def specialists_update_assigned_referrals_def)

section \<open>Generated identifiers\<close>

lemma digit_nth:
  assumes "d < 10"
  shows "of_char (''0123456789'' ! d) = (48::nat) + d" and "is_digit (''0123456789'' ! d)"
proof -
  have "d = 0 \<or> d = 1 \<or> d = 2 \<or> d = 3 \<or> d = 4 \<or> d = 5 \<or> d = 6 \<or> d = 7 \<or> d = 8 \<or> d = 9"
    using assms by arith
  then show "of_char (''0123456789'' ! d) = (48::nat) + d" and "is_digit (''0123456789'' ! d)"
    by (auto simp: is_digit_def)
qed

lemma to_text_digits: "list_all is_digit (to_text n)"
proof (induction n rule: to_text.induct)
  case (1 n)
  show ?case
  proof (cases "n < 10")
    case True
    then show ?thesis by (simp add: to_text.simps[of n] digit_nth)
  next
    case False
    then show ?thesis using 1 by (simp add: to_text.simps[of n] digit_nth)
  qed
qed

lemma to_text_length: "n < 10 ^ k \<Longrightarrow> 0 < k \<Longrightarrow> length (to_text n) \<le> k"
proof (induction n arbitrary: k rule: to_text.induct)
  case (1 n)
  show ?case
  proof (cases "n < 10")
    case True
    then show ?thesis using "1.prems" by (simp add: to_text.simps[of n])
  next
    case False
    obtain j where k: "k = Suc j" using "1.prems"(2) by (cases k) auto
    have "j \<noteq> 0" using False "1.prems"(1) k by (cases j) auto
    moreover have "n div 10 < 10 ^ j" using "1.prems"(1) k by (simp add: less_mult_imp_div_less mult.commute)
    ultimately have "length (to_text (n div 10)) \<le> j"
      using "1.IH"[OF False, of j] by simp
    then show ?thesis using False k by (simp add: to_text.simps[of n])
  qed
qed

lemma digits_value_append:
  "digits_value (s @ [c]) = 10 * digits_value s + (of_char c - 48)"
  by (simp add: digits_value_def)

lemma digits_value_to_text: "digits_value (to_text n) = n"
proof (induction n rule: to_text.induct)
  case (1 n)
  show ?case
  proof (cases "n < 10")
    case True
    then show ?thesis by (simp add: to_text.simps[of n] digits_value_def digit_nth)
  next
    case False
    then have "digits_value (to_text (n div 10)) = n div 10" using 1 by simp
    then show ?thesis using False
      by (simp add: to_text.simps[of n] digits_value_append digit_nth)
  qed
qed

lemma foldl_zeros:
  "foldl (\<lambda>a c. 10 * a + (of_char c - 48)) 0 (replicate k (CHR ''0'') @ s) =
   foldl (\<lambda>a c. 10 * a + (of_char c - 48)) (0::nat) s"
  by (induction k) simp_all

lemma concat_replicate_single: "concat (replicate k [c]) = replicate k c"
  by (induction k) simp_all

lemma lpad_zero:
  "length s \<le> n \<Longrightarrow> lpad s n ''0'' = replicate (n - length s) (CHR ''0'') @ s"
  by (simp add: lpad_def concat_replicate_single)

lemma lpad_zero_value: "length s \<le> n \<Longrightarrow> digits_value (lpad s n ''0'') = digits_value s"
  by (simp only: lpad_zero digits_value_def foldl_zeros)

lemma zero_padded_digits: "list_all is_digit (replicate k (CHR ''0''))"
  by (induction k) (simp_all add: is_digit_def)

lemma floor_random_bound:
  fixes rnd :: real
  assumes "0 \<le> rnd" "rnd < 1"
  shows "nat \<lfloor>rnd * 999999\<rfloor> < 999999"
proof -
  have "rnd * 999999 < 999999" using assms by simp
  then have "\<lfloor>rnd * 999999\<rfloor> < 999999" by (simp add: floor_less_iff)
  then show ?thesis by linarith
qed

lemma random_suffix_value:
  assumes "0 \<le> rnd" "rnd < 1"
  shows "digits_value (random_suffix rnd) = nat \<lfloor>rnd * 999999\<rfloor>"
proof -
  have "nat \<lfloor>rnd * 999999\<rfloor> < 10 ^ 6" using floor_random_bound[OF assms] by simp
  then have "length (to_text (nat \<lfloor>rnd * 999999\<rfloor>)) \<le> 6" by (rule to_text_length) simp
  then show ?thesis by (simp add: random_suffix_def lpad_zero_value digits_value_to_text)
qed

lemma random_suffix_shape:
  assumes "0 \<le> rnd" "rnd < 1"
  shows "length (random_suffix rnd) = 6" and "list_all is_digit (random_suffix rnd)"
proof -
  have "nat \<lfloor>rnd * 999999\<rfloor> < 10 ^ 6" using floor_random_bound[OF assms] by simp
  then have len: "length (to_text (nat \<lfloor>rnd * 999999\<rfloor>)) \<le> 6" by (rule to_text_length) simp
  show "length (random_suffix rnd) = 6" using len by (simp add: random_suffix_def lpad_zero)
  show "list_all is_digit (random_suffix rnd)"
    using len by (simp add: random_suffix_def lpad_zero to_text_digits zero_padded_digits)
qed

lemma to_char_YYYY_shape:
  assumes "y \<le> 9999"
  shows "length (to_char_YYYY y) = 4" and "list_all is_digit (to_char_YYYY y)"
proof -
  have "y < 10 ^ 4" using assms by simp
  then have len: "length (to_text y) \<le> 4" by (rule to_text_length) simp
  show "length (to_char_YYYY y) = 4" using len by (simp add: to_char_YYYY_def)
  show "list_all is_digit (to_char_YYYY y)"
    by (simp add: to_char_YYYY_def to_text_digits zero_padded_digits)
qed

lemma to_char_YYYY_value: "digits_value (to_char_YYYY y) = y"
proof -
  have "digits_value (to_char_YYYY y) = digits_value (to_text y)"
    by (simp only: to_char_YYYY_def digits_value_def foldl_zeros)
  then show ?thesis by (simp only: digits_value_to_text)
qed

lemma candidate_matches:
  assumes "length y = 4" "list_all is_digit y" "length x = 6" "list_all is_digit x"
    and "pre = ''PAT-'' \<or> pre = ''REF-''"
  shows "matches_id_format (pre @ y @ ''-'' @ x)" and "take 4 (pre @ y @ ''-'' @ x) = pre"
    and "take 4 (drop 4 (pre @ y @ ''-'' @ x)) = y" and "drop 9 (pre @ y @ ''-'' @ x) = x"
  using assms by (auto simp: matches_id_format_def nth_append)

lemma generate_referral_id_loop_Some:
  "generate_referral_id_loop db y rs = Some s \<Longrightarrow>
     \<exists>r\<in>set rs. s = ''REF-'' @ to_char_YYYY y @ ''-'' @ random_suffix r \<and>
       \<not> list_ex (\<lambda>x. sql_eq (r_referral_id x) (Some s)) (tbl_referrals db)"
  by (induction rs) (auto simp: Let_def split: if_splits)

lemma generate_patient_id_loop_Some:
  "generate_patient_id_loop db y rs = Some s \<Longrightarrow>
     \<exists>r\<in>set rs. s = ''PAT-'' @ to_char_YYYY y @ ''-'' @ random_suffix r \<and>
       \<not> list_ex (\<lambda>x. sql_eq (pt_patient_id x) (Some s)) (tbl_patients db)"
  by (induction rs) (auto simp: Let_def split: if_splits)

lemma generate_referral_id_loop_returns:
  "\<exists>r\<in>set rs. \<not> list_ex (\<lambda>x. sql_eq (r_referral_id x)
        (Some (''REF-'' @ to_char_YYYY y @ ''-'' @ random_suffix r))) (tbl_referrals db) \<Longrightarrow>
   generate_referral_id_loop db y rs \<noteq> None"
  by (induction rs) (auto simp: Let_def)

lemma generate_patient_id_loop_returns:
  "\<exists>r\<in>set rs. \<not> list_ex (\<lambda>x. sql_eq (pt_patient_id x)
        (Some (''PAT-'' @ to_char_YYYY y @ ''-'' @ random_suffix r))) (tbl_patients db) \<Longrightarrow>
   generate_patient_id_loop db y rs \<noteq> None"
  by (induction rs) (auto simp: Let_def)

text \<open>
  C7. While the year of \<open>NOW()\<close> has at most four digits and \<open>RANDOM()\<close> returns
  values in \<open>[0, 1)\<close>, every identifier \<open>generate_referral_id\<close> returns is
  \<open>REF-\<close>, four digits that denote the year, \<open>-\<close> and six digits, and every identifier
  \<open>generate_patient_id\<close> returns is the same with \<open>PAT-\<close>: both match
  \<open>^(PAT|REF)-\d{4}-\d{6}$\<close>. The loop returns as soon as one of the random values
  gives a candidate that is not in the table.
\<close>

theorem generated_ids_match_format:
  assumes year: "now_yyyy e \<le> 9999"
    and rnd: "\<forall>r\<in>set (randoms e). 0 \<le> r \<and> r < 1"
  shows "(\<forall>s. generate_referral_id db e = Some s \<longrightarrow>
            matches_id_format s \<and> take 4 s = ''REF-'' \<and>
            take 4 (drop 4 s) = to_char_YYYY (now_yyyy e) \<and>
            digits_value (take 4 (drop 4 s)) = now_yyyy e) \<and>
         (\<forall>s. generate_patient_id db e = Some s \<longrightarrow>
            matches_id_format s \<and> take 4 s = ''PAT-'' \<and>
            take 4 (drop 4 s) = to_char_YYYY (now_yyyy e) \<and>
            digits_value (take 4 (drop 4 s)) = now_yyyy e) \<and>
         ((\<exists>r\<in>set (randoms e). \<not> list_ex (\<lambda>x. sql_eq (r_referral_id x)
              (Some (''REF-'' @ to_char_YYYY (now_yyyy e) @ ''-'' @ random_suffix r)))
              (tbl_referrals db)) \<longrightarrow>
            generate_referral_id db e \<noteq> None) \<and>
         ((\<exists>r\<in>set (randoms e). \<not> list_ex (\<lambda>x. sql_eq (pt_patient_id x)
              (Some (''PAT-'' @ to_char_YYYY (now_yyyy e) @ ''-'' @ random_suffix r)))
              (tbl_patients db)) \<longrightarrow>
            generate_patient_id db e \<noteq> None)"
proof (intro conjI allI impI)
  fix s assume "generate_referral_id db e = Some s"
  then obtain r where r: "r \<in> set (randoms e)"
    and s: "s = ''REF-'' @ to_char_YYYY (now_yyyy e) @ ''-'' @ random_suffix r"
    unfolding generate_referral_id_def by (blast dest: generate_referral_id_loop_Some)
  have r01: "0 \<le> r" "r < 1" using rnd r by auto
  note shape = to_char_YYYY_shape[OF year] random_suffix_shape[OF r01]
  show "matches_id_format s" "take 4 s = ''REF-''" "take 4 (drop 4 s) = to_char_YYYY (now_yyyy e)"
    "digits_value (take 4 (drop 4 s)) = now_yyyy e"
    unfolding s using candidate_matches[OF shape, of "''REF-''"]
    by (simp_all add: to_char_YYYY_value)
next
  fix s assume "generate_patient_id db e = Some s"
  then obtain r where r: "r \<in> set (randoms e)"
    and s: "s = ''PAT-'' @ to_char_YYYY (now_yyyy e) @ ''-'' @ random_suffix r"
    unfolding generate_patient_id_def by (blast dest: generate_patient_id_loop_Some)
  have r01: "0 \<le> r" "r < 1" using rnd r by auto
  note shape = to_char_YYYY_shape[OF year] random_suffix_shape[OF r01]
  show "matches_id_format s" "take 4 s = ''PAT-''" "take 4 (drop 4 s) = to_char_YYYY (now_yyyy e)"
    "digits_value (take 4 (drop 4 s)) = now_yyyy e"
    unfolding s using candidate_matches[OF shape, of "''PAT-''"]
    by (simp_all add: to_char_YYYY_value)
next
  assume "\<exists>r\<in>set (randoms e). \<not> list_ex (\<lambda>x. sql_eq (r_referral_id x)
              (Some (''REF-'' @ to_char_YYYY (now_yyyy e) @ ''-'' @ random_suffix r)))
              (tbl_referrals db)"
  then show "generate_referral_id db e \<noteq> None"
    unfolding generate_referral_id_def by (rule generate_referral_id_loop_returns)
next
  assume "\<exists>r\<in>set (randoms e). \<not> list_ex (\<lambda>x. sql_eq (pt_patient_id x)
              (Some (''PAT-'' @ to_char_YYYY (now_yyyy e) @ ''-'' @ random_suffix r)))
              (tbl_patients db)"
  then show "generate_patient_id db e \<noteq> None"
    unfolding generate_patient_id_def by (rule generate_patient_id_loop_returns)
qed

lemma random_suffix_half: "random_suffix (1 / 2) = ''499999''"
  by (simp add: random_suffix_def lpad_def to_text.simps)

lemma lpad_one: "lpad ''1'' 6 ''0'' = ''000001''"
  by code_simp

lemma random_suffix_first: "random_suffix (1 / 999999) = ''000001''"
  by (simp add: random_suffix_def lpad_one to_text.simps)

lemma to_char_2025: "to_char_YYYY 2025 = ''2025''"
  by (simp add: to_char_YYYY_def to_text.simps)

lemma demo_generate:
  "generate_referral_id demo_db demo_env = Some ''REF-2025-499999''"
  "generate_patient_id demo_db demo_env = Some ''PAT-2025-499999''"
  by (simp_all add: generate_referral_id_def generate_patient_id_def demo_defs
      random_suffix_half random_suffix_first to_char_2025)

theorem generated_ids_match_format_witness:
  "generate_referral_id demo_db demo_env = Some ''REF-2025-499999'' \<and>
   generate_patient_id demo_db demo_env = Some ''PAT-2025-499999'' \<and>
   matches_id_format ''REF-2025-499999'' \<and> matches_id_format ''PAT-2025-499999''"
proof -
  have y: "now_yyyy demo_env \<le> 9999" by (simp add: demo_env_def)
  have r: "\<forall>r\<in>set (randoms demo_env). 0 \<le> r \<and> r < 1" by (simp add: demo_env_def)
  show ?thesis
    using generated_ids_match_format[OF y r, of demo_db] by (simp add: demo_generate)
qed

text \<open>
  C8. \<open>FLOOR(RANDOM() * 999999)\<close> is at most 999998 for every value of \<open>RANDOM()\<close>
  in \<open>[0, 1)\<close>: the suffix \<open>999999\<close> is never drawn, and the suffixes that can be
  drawn are those of the 999999 numbers 0 to 999998, not of 1000000 numbers.
\<close>

theorem suffix_999999_never_drawn:
  "''999999'' \<notin> random_suffix ` {r. 0 \<le> r \<and> r < 1} \<and>
   random_suffix ` {r. 0 \<le> r \<and> r < 1} = (\<lambda>n. lpad (to_text n) 6 ''0'') ` {n. n < 999999}"
proof
  show "''999999'' \<notin> random_suffix ` {r. 0 \<le> r \<and> r < 1}"
  proof
    assume "''999999'' \<in> random_suffix ` {r. 0 \<le> r \<and> r < 1}"
    then obtain r :: real where r: "0 \<le> r" "r < 1" and eq: "random_suffix r = ''999999''"
      by auto
    have "digits_value (random_suffix r) = 999999"
      unfolding eq by (simp add: digits_value_def)
    then show False
      using random_suffix_value[OF r] floor_random_bound[OF r] by simp
  qed
next
  show "random_suffix ` {r. 0 \<le> r \<and> r < 1} = (\<lambda>n. lpad (to_text n) 6 ''0'') ` {n. n < 999999}"
  proof (intro equalityI subsetI)
    fix x assume "x \<in> random_suffix ` {r. 0 \<le> r \<and> r < 1}"
    then obtain r :: real where r: "0 \<le> r" "r < 1" and x: "x = random_suffix r" by auto
    show "x \<in> (\<lambda>n. lpad (to_text n) 6 ''0'') ` {n. n < 999999}"
      unfolding x random_suffix_def using floor_random_bound[OF r] by blast
  next
    fix x assume "x \<in> (\<lambda>n. lpad (to_text n) 6 ''0'') ` {n. n < 999999}"
    then obtain n :: nat where n: "n < 999999" and x: "x = lpad (to_text n) 6 ''0''" by auto
    have "nat \<lfloor>(real n / 999999) * 999999\<rfloor> = n" by simp
    then have "x = random_suffix (real n / 999999)" by (simp add: x random_suffix_def)
    moreover have "0 \<le> real n / 999999" "real n / 999999 < 1" using n by simp_all
    ultimately show "x \<in> random_suffix ` {r. 0 \<le> r \<and> r < 1}" by blast
  qed
qed

theorem suffix_999999_never_drawn_witness:
  "random_suffix (1 / 2) = ''499999'' \<and> random_suffix (1 / 2) \<noteq> ''999999''"
proof -
  have "random_suffix (1 / 2) \<in> random_suffix ` {r. 0 \<le> r \<and> r < 1}" by simp
  then have "random_suffix (1 / 2) \<noteq> ''999999''"
    using suffix_999999_never_drawn by metis
  then show ?thesis by (simp add: random_suffix_half)
qed

section \<open>Creating referrals\<close>

lemma insert_referral_admitted:
  assumes "insert_referral db e uid NEW = Some (Inr db')"
  shows "\<exists>row. set_referral_id_trigger db e NEW = Some row \<and>
           rls_insert referrals_policies db uid row"
proof (cases "set_referral_id_trigger db e NEW")
  case None
  then show ?thesis using assms by (simp add: insert_referral_def)
next
  case (Some row)
  then show ?thesis using assms by (simp add: insert_referral_def split: if_splits)
qed

lemma set_referral_id_trigger_doctor:
  "set_referral_id_trigger db e NEW = Some row \<Longrightarrow>
   r_referring_doctor_id row = r_referring_doctor_id NEW"
  by (auto simp: set_referral_id_trigger_def set_referral_id_def split: if_splits)

text \<open>
  C5. A caller \<open>c\<close> (a row of profiles, the primary key making it the only row of its
  identity) may insert a referral \<open>r\<close> exactly when \<open>r.referring_doctor_id\<close> is
  \<open>c\<close>'s identity and \<open>c\<close>'s role is doctor, specialist or admin; and for every
  value of \<open>auth.uid()\<close>, with or without a profile, a referral whose
  \<open>referring_doctor_id\<close> is another identity is refused: no \<open>INSERT\<close> of it
  succeeds.
\<close>

theorem referral_insert_admitted_iff:
  assumes "distinct (map pr_id (tbl_profiles db))" and "c \<in> set (tbl_profiles db)"
  shows "(rls_insert referrals_policies db (Some (pr_id c)) r \<longleftrightarrow>
            r_referring_doctor_id r = pr_id c \<and> pr_role c \<in> {doctor, specialist, admin}) \<and>
         (\<forall>uid. uid \<noteq> Some (r_referring_doctor_id r) \<longrightarrow>
            \<not> rls_insert referrals_policies db uid r) \<and>
         (\<forall>uid e db'. insert_referral db e uid r = Some (Inr db') \<longrightarrow>
            uid = Some (r_referring_doctor_id r))"
proof (intro conjI allI impI)
  show "rls_insert referrals_policies db (Some (pr_id c)) r \<longleftrightarrow>
            r_referring_doctor_id r = pr_id c \<and> pr_role c \<in> {doctor, specialist, admin}"
    using assms by (auto simp: rls_insert_referrals exists_profile_caller sql_eq_Some_left)
next
  fix uid assume "uid \<noteq> Some (r_referring_doctor_id r)"
  then show "\<not> rls_insert referrals_policies db uid r"
    by (simp add: rls_insert_referrals sql_eq_Some_left)
next
  fix uid e db' assume "insert_referral db e uid r = Some (Inr db')"
  then obtain row where row: "set_referral_id_trigger db e r = Some row"
    "rls_insert referrals_policies db uid row"
    using insert_referral_admitted by blast
  then have "uid = Some (r_referring_doctor_id row)"
    by (simp add: rls_insert_referrals sql_eq_Some_left)
  then show "uid = Some (r_referring_doctor_id r)"
    using set_referral_id_trigger_doctor[OF row(1)] by simp
qed

lemma demo_insert_referral:
  "insert_referral demo_db demo_env (Some 3)
       (referral_1\<lparr>r_id := 201, r_referral_id := None, r_referring_doctor_id := 3\<rparr>) =
     Some (Inr (demo_db\<lparr>tbl_referrals :=
       [referral_1, referral_1\<lparr>r_id := 201, r_referral_id := Some ''REF-2025-499999'',
                               r_referring_doctor_id := 3\<rparr>]\<rparr>))"
proof -
  have t: "set_referral_id_trigger demo_db demo_env
       (referral_1\<lparr>r_id := 201, r_referral_id := None, r_referring_doctor_id := 3\<rparr>) =
     Some (referral_1\<lparr>r_id := 201, r_referral_id := Some ''REF-2025-499999'',
                       r_referring_doctor_id := 3\<rparr>)"
    by (simp add: set_referral_id_trigger_def set_referral_id_def demo_generate)
  show ?thesis
    unfolding insert_referral_def t
    by (simp add: rls_insert_referrals referral_fks_ok_def exists_profile_def demo_defs)
qed

theorem referral_insert_admitted_witness:
  "rls_insert referrals_policies demo_db (Some 3) (referral_1\<lparr>r_referring_doctor_id := 3\<rparr>) \<and>
   \<not> rls_insert referrals_policies demo_db (Some 3) referral_1 \<and>
   \<not> rls_insert referrals_policies demo_db (Some 4) (referral_1\<lparr>r_referring_doctor_id := 4\<rparr>) \<and>
   insert_referral demo_db demo_env (Some 3)
       (referral_1\<lparr>r_id := 201, r_referral_id := None, r_referring_doctor_id := 3\<rparr>) =
     Some (Inr (demo_db\<lparr>tbl_referrals :=
       [referral_1, referral_1\<lparr>r_id := 201, r_referral_id := Some ''REF-2025-499999'',
                               r_referring_doctor_id := 3\<rparr>]\<rparr>))"
proof -
  have pk: "distinct (map pr_id (tbl_profiles demo_db))"
    by (simp add: demo_defs)
  have s: "profile_specialist \<in> set (tbl_profiles demo_db)"
    and p: "profile_patient \<in> set (tbl_profiles demo_db)"
    by (simp_all add: demo_defs)
  have "rls_insert referrals_policies demo_db (Some 3) (referral_1\<lparr>r_referring_doctor_id := 3\<rparr>) \<and>
   \<not> rls_insert referrals_policies demo_db (Some 3) referral_1 \<and>
   \<not> rls_insert referrals_policies demo_db (Some 4) (referral_1\<lparr>r_referring_doctor_id := 4\<rparr>)"
    using referral_insert_admitted_iff[OF pk s, of "referral_1\<lparr>r_referring_doctor_id := 3\<rparr>"]
      referral_insert_admitted_iff[OF pk s, of referral_1]
      referral_insert_admitted_iff[OF pk p, of "referral_1\<lparr>r_referring_doctor_id := 4\<rparr>"]
    by (simp add: demo_defs)
  then show ?thesis using demo_insert_referral by simp
qed

section \<open>Updating referrals\<close>

lemma update_row_referrals:
  "update_row referrals_policies db t uid set_clause OLD =
     (if \<not> rls_update_using referrals_policies db uid OLD then skipped
      else if \<not> rls_update_using referrals_policies db uid ((set_clause OLD)\<lparr>updated_at := Some t\<rparr>)
        then failed rls_violation
      else written ((set_clause OLD)\<lparr>updated_at := Some t\<rparr>))"
  by (simp add: update_row_def update_updated_at_column_def rls_update_check_referrals)

text \<open>
  C4. For a caller \<open>c\<close> whose role is specialist, the \<open>UPDATE\<close> policy of referrals
  lets \<open>c\<close> update the row \<open>r\<close> exactly when \<open>c\<close> is \<open>r\<close>'s target specialist or
  \<open>c\<close>'s hospital is \<open>r\<close>'s target hospital. An update of the status by such a
  caller is written (with \<open>updated_at\<close> set by the trigger); by any other specialist
  the row is passed over and stays as it was.
\<close>

theorem specialist_update_referral_iff:
  assumes "distinct (map pr_id (tbl_profiles db))" and "c \<in> set (tbl_profiles db)"
    and "pr_role c = specialist"
  shows "(rls_update_using referrals_policies db (Some (pr_id c)) r \<longleftrightarrow>
            r_target_specialist_id r = Some (pr_id c) \<or>
            pr_hospital_id c = Some (r_target_hospital_id r)) \<and>
         update_row referrals_policies db t (Some (pr_id c)) (\<lambda>x. x\<lparr>r_status := st\<rparr>) r =
           (if r_target_specialist_id r = Some (pr_id c) \<or>
               pr_hospital_id c = Some (r_target_hospital_id r)
            then written (r\<lparr>r_status := st, updated_at := Some t\<rparr>)
            else skipped)"
  using assms
  by (simp add: update_row_referrals rls_update_using_referrals exists_profile_caller
      sql_eq_Some_left sql_eq_Some_right)

theorem specialist_update_referral_witness:
  "update_row referrals_policies demo_db 50 (Some 3) (\<lambda>x. x\<lparr>r_status := in_progress\<rparr>) referral_1 =
     written (referral_1\<lparr>r_status := in_progress, updated_at := Some 50\<rparr>) \<and>
   update_row referrals_policies demo_db 50 (Some 5) (\<lambda>x. x\<lparr>r_status := in_progress\<rparr>) referral_1 =
     skipped \<and>
   update_row referrals_policies demo_db 50 (Some 5) (\<lambda>x. x\<lparr>r_status := in_progress\<rparr>)
       (referral_1\<lparr>r_target_specialist_id := Some 5\<rparr>) =
     written (referral_1\<lparr>r_target_specialist_id := Some 5, r_status := in_progress,
                         updated_at := Some 50\<rparr>)"
proof -
  have pk: "distinct (map pr_id (tbl_profiles demo_db))"
    by (simp add: demo_defs)
  have s: "profile_specialist \<in> set (tbl_profiles demo_db)"
    and a: "profile_specialist_a \<in> set (tbl_profiles demo_db)"
    by (simp_all add: demo_defs)
  have rs: "pr_role profile_specialist = specialist" and ra: "pr_role profile_specialist_a = specialist"
    by (simp_all add: demo_defs)
  show ?thesis
    using specialist_update_referral_iff[OF pk s rs, of referral_1 50 in_progress]
      specialist_update_referral_iff[OF pk a ra, of referral_1 50 in_progress]
      specialist_update_referral_iff[OF pk a ra, of "referral_1\<lparr>r_target_specialist_id := Some 5\<rparr>" 50 in_progress]
    by (simp add: demo_defs)
qed

section \<open>Reading patients\<close>

lemma rls_select_patients:
  "rls_select patients_policies db uid p \<longleftrightarrow>
     exists_profile db uid (\<lambda>c. pr_role c \<in> set [doctor, specialist, admin] \<and>
        (sql_eq (pr_hospital_id c) (pt_current_hospital_id p) \<or> pr_role c = admin)) \<or>
     exists_profile db uid (\<lambda>c. pr_role c \<in> set [doctor, admin])"
  by (simp add: patients_policies_def rls_select_def pol_applies_def using_expr_def
      doctors_view_patients_at_hospital_def doctors_manage_patients_def)

lemma rls_write_patients:
  "rls_insert patients_policies db uid p = exists_profile db uid (\<lambda>c. pr_role c \<in> set [doctor, admin])"
  "rls_update_using patients_policies db uid p = exists_profile db uid (\<lambda>c. pr_role c \<in> set [doctor, admin])"
  "rls_update_check patients_policies db uid p = exists_profile db uid (\<lambda>c. pr_role c \<in> set [doctor, admin])"
  "rls_delete patients_policies db uid p = exists_profile db uid (\<lambda>c. pr_role c \<in> set [doctor, admin])"
  by (simp_all add: patients_policies_def rls_insert_def rls_update_using_def rls_update_check_def
      rls_delete_def pol_applies_def using_expr_def check_expr_def
      doctors_view_patients_at_hospital_def doctors_manage_patients_def)

lemma patient_read_by_caller:
  assumes "distinct (map pr_id (tbl_profiles db))" and "c \<in> set (tbl_profiles db)"
  shows "rls_select patients_policies db (Some (pr_id c)) p \<longleftrightarrow>
           pr_role c = doctor \<or> pr_role c = admin \<or>
           (pr_role c = specialist \<and> sql_eq (pr_hospital_id c) (pt_current_hospital_id p))"
  using assms by (auto simp: rls_select_patients exists_profile_caller)

lemma rls_select_view_only:
  "rls_select [doctors_view_patients_at_hospital] db uid p \<longleftrightarrow>
     exists_profile db uid (\<lambda>c. pr_role c \<in> set [doctor, specialist, admin] \<and>
        (sql_eq (pr_hospital_id c) (pt_current_hospital_id p) \<or> pr_role c = admin))"
  by (simp add: rls_select_def pol_applies_def using_expr_def doctors_view_patients_at_hospital_def)

text \<open>
  C2. By the specification a doctor reads only the patients of the doctor's own
  hospital, as the policy "Doctors can view patients at their hospital" provides on
  its own. The table has a second policy, "Doctors can manage patients", declared
  \<open>FOR ALL\<close> and therefore also a \<open>SELECT\<close> policy; joined by OR it shows every
  patient to every doctor. Here the doctor of hospital 10 reads the patient of
  hospital 20, whom the first policy alone would hide.
\<close>

theorem doctor_reads_patient_of_other_hospital:
  "pr_role profile_doctor = doctor \<and>
   pr_hospital_id profile_doctor = Some 10 \<and>
   pt_current_hospital_id patient_p = Some 20 \<and>
   rls_select patients_policies demo_db (Some (pr_id profile_doctor)) patient_p \<and>
   \<not> rls_select [doctors_view_patients_at_hospital] demo_db (Some (pr_id profile_doctor)) patient_p"
  by (simp add: rls_select_patients rls_select_view_only exists_profile_def demo_defs)

section \<open>Updating profiles\<close>

lemma rls_update_profiles:
  "rls_update_using profiles_policies db uid p \<longleftrightarrow> uid = Some (pr_id p)"
  "rls_update_check profiles_policies db uid p \<longleftrightarrow> uid = Some (pr_id p)"
  by (simp_all add: profiles_policies_eq rls_update_using_def rls_update_check_def pol_applies_def
      using_expr_def check_expr_def users_view_own_profile_def users_update_own_profile_def
      admins_view_all_profiles_def admins_insert_profiles_def sql_eq_Some_right)

text \<open>
  C3, as the code has it. The only \<open>UPDATE\<close> policy of profiles is "Users can
  update their own profile", \<open>USING (auth.uid() = id)\<close>, with no restriction on the
  columns: an update of a profile row is written exactly when the caller's identity
  is the row's \<open>id\<close>, before and after the update, whatever the caller's role and
  whatever columns (the role among them) the \<open>SET\<close> clause changes. No caller, an
  admin included, can update the row of another identity.
\<close>

theorem profile_update_iff:
  "update_row profiles_policies db t uid set_clause OLD = written NEW \<longleftrightarrow>
     uid = Some (pr_id OLD) \<and> uid = Some (pr_id (set_clause OLD)) \<and>
     NEW = (set_clause OLD)\<lparr>updated_at := Some t\<rparr>"
  by (auto simp: update_row_def update_updated_at_column_def rls_update_profiles)

theorem profile_update_witness:
  "update_row profiles_policies demo_db 50 (Some 2) (\<lambda>p. p\<lparr>pr_phone := Some ''7''\<rparr>) profile_doctor =
     written (profile_doctor\<lparr>pr_phone := Some ''7'', updated_at := Some 50\<rparr>) \<and>
   update_row profiles_policies demo_db 50 (Some 1) (\<lambda>p. p\<lparr>pr_role := patient\<rparr>) profile_doctor \<noteq>
     written (profile_doctor\<lparr>pr_role := patient, updated_at := Some 50\<rparr>)"
  using profile_update_iff[of demo_db 50 "Some 2" "\<lambda>p. p\<lparr>pr_phone := Some ''7''\<rparr>" profile_doctor
      "profile_doctor\<lparr>pr_phone := Some ''7'', updated_at := Some 50\<rparr>"]
    profile_update_iff[of demo_db 50 "Some 1" "\<lambda>p. p\<lparr>pr_role := patient\<rparr>" profile_doctor
      "profile_doctor\<lparr>pr_role := patient, updated_at := Some 50\<rparr>"]
  by (simp add: demo_defs)

text \<open>
  C3 as stated fails: the caller of role patient sets the role of their own row to
  admin, and the update is written.
\<close>

theorem self_promotion_counterexample:
  "pr_role profile_patient = patient \<and>
   update_row profiles_policies demo_db 50 (Some (pr_id profile_patient))
       (\<lambda>p. p\<lparr>pr_role := admin\<rparr>) profile_patient =
     written (profile_patient\<lparr>pr_role := admin, updated_at := Some 50\<rparr>)"
  by (simp add: update_row_def update_updated_at_column_def rls_update_profiles demo_defs)

section \<open>Updated rows are visible rows\<close>

text \<open>
  An \<open>UPDATE\<close> with a \<open>WHERE\<close> or \<open>RETURNING\<close> clause also filters the rows by the
  \<open>SELECT\<close> policies. On referrals, profiles and patients every row an \<open>UPDATE\<close>
  policy admits is admitted by a \<open>SELECT\<close> policy too, so \<open>update_row\<close>, which
  consults the \<open>UPDATE\<close> policies only, refuses nothing less than such a statement.
\<close>

lemma rls_select_referrals:
  "rls_select referrals_policies db uid r \<longleftrightarrow>
     sql_eq (Some (r_referring_doctor_id r)) uid \<or>
     sql_eq (r_target_specialist_id r) uid \<or>
     exists_profile db uid (\<lambda>p. pr_role p = specialist \<and>
        sql_eq (pr_hospital_id p) (Some (r_target_hospital_id r))) \<or>
     exists_profile db uid (\<lambda>p. pr_role p = admin)"
  by (simp add: referrals_policies_eq rls_select_def pol_applies_def using_expr_def
      doctors_view_created_referrals_def specialists_view_assigned_referrals_def
      specialists_at_target_view_referrals_def admins_view_all_referrals_def
      medical_staff_create_referrals_def specialists_update_assigned_referrals_def)

lemma rls_select_profiles:
  "rls_select profiles_policies db uid p \<longleftrightarrow>
     uid = Some (pr_id p) \<or> has_profile_role db uid admin"
  by (simp add: profiles_policies_eq rls_select_def pol_applies_def using_expr_def
      users_view_own_profile_def users_update_own_profile_def
      admins_view_all_profiles_def admins_insert_profiles_def sql_eq_Some_right)

lemma updated_rows_are_visible:
  "rls_update_using referrals_policies db uid r \<Longrightarrow> rls_select referrals_policies db uid r"
  "rls_update_using profiles_policies db uid pr \<Longrightarrow> rls_select profiles_policies db uid pr"
  "rls_update_using patients_policies db uid pt \<Longrightarrow> rls_select patients_policies db uid pt"
  by (auto simp: rls_update_using_referrals rls_select_referrals rls_update_profiles
      rls_select_profiles rls_write_patients rls_select_patients)

section \<open>Deleting referrals\<close>

lemma delete_referral_noop: "delete_referral db uid key = db"
  by (simp add: delete_referral_def rls_delete_referrals)

lemma delete_patient_referrals:
  "tbl_referrals (delete_patient db uid key) =
     filter (\<lambda>r. \<not> (r_patient_id r = key \<and>
                    list_ex (\<lambda>p. pt_id p = key) (tbl_patients db) \<and>
                    exists_profile db uid (\<lambda>c. pr_role c \<in> set [doctor, admin])))
       (tbl_referrals db)"
proof -
  have "list_ex (\<lambda>p. pt_id p = r_patient_id r)
          (filter (\<lambda>p. pt_id p = key \<and> rls_delete patients_policies db uid p) (tbl_patients db)) \<longleftrightarrow>
        r_patient_id r = key \<and> list_ex (\<lambda>p. pt_id p = key) (tbl_patients db) \<and>
        exists_profile db uid (\<lambda>c. pr_role c \<in> set [doctor, admin])" for r
    unfolding list_ex_iff rls_write_patients by auto
  note eq = this
  have "tbl_referrals (delete_patient db uid key) =
          filter (\<lambda>r. \<not> list_ex (\<lambda>p. pt_id p = r_patient_id r)
             (filter (\<lambda>p. pt_id p = key \<and> rls_delete patients_policies db uid p) (tbl_patients db)))
            (tbl_referrals db)"
    by (simp add: delete_patient_def Let_def)
  also have "\<dots> = filter (\<lambda>r. \<not> (r_patient_id r = key \<and>
                    list_ex (\<lambda>p. pt_id p = key) (tbl_patients db) \<and>
                    exists_profile db uid (\<lambda>c. pr_role c \<in> set [doctor, admin])))
       (tbl_referrals db)"
    by (simp only: eq)
  finally show ?thesis .
qed

text \<open>
  C9, as the code has it. No policy of referrals applies to \<open>DELETE\<close>, so for every
  caller a \<open>DELETE\<close> on referrals removes nothing. A referral is still removed when
  its patient is deleted: \<open>referrals.patient_id\<close> is declared \<open>ON DELETE CASCADE\<close>,
  and the \<open>FOR ALL\<close> policy of patients lets every doctor and admin delete a
  patient. After \<open>DELETE FROM patients WHERE id = key\<close> the referrals left are those
  of other patients, or all of them when no patient row was deleted.
\<close>

theorem referral_delete_only_by_cascade:
  "rls_delete referrals_policies db uid r = False \<and>
   delete_referral db uid key = db \<and>
   tbl_referrals (delete_patient db uid key) =
     filter (\<lambda>r. \<not> (r_patient_id r = key \<and>
                    list_ex (\<lambda>p. pt_id p = key) (tbl_patients db) \<and>
                    exists_profile db uid (\<lambda>c. pr_role c \<in> set [doctor, admin])))
       (tbl_referrals db)"
  by (simp only: rls_delete_referrals delete_referral_noop delete_patient_referrals simp_thms)

theorem referral_delete_only_by_cascade_witness:
  "delete_referral demo_db (Some 1) 200 = demo_db \<and>
   tbl_referrals (delete_patient demo_db (Some 3) 100) = [referral_1] \<and>
   tbl_referrals (delete_patient demo_db (Some 1) 100) = []"
  using referral_delete_only_by_cascade[of demo_db "Some 1" referral_1 200]
    referral_delete_only_by_cascade[of demo_db "Some 3" referral_1 100]
    referral_delete_only_by_cascade[of demo_db "Some 1" referral_1 100]
  by (simp add: exists_profile_def demo_defs)

text \<open>
  C9 as stated fails: a doctor deletes the patient, and the referral of that patient
  is gone.
\<close>

theorem referral_removed_counterexample:
  "pr_role profile_doctor = doctor \<and>
   referral_1 \<in> set (tbl_referrals demo_db) \<and>
   referral_1 \<notin> set (tbl_referrals (delete_patient demo_db (Some (pr_id profile_doctor)) 100))"
  by (simp add: delete_patient_referrals exists_profile_def demo_defs)

section \<open>The updated-at trigger\<close>

text \<open>
  C10. \<open>update_row\<close> is the \<open>UPDATE\<close> of one row for each of the five tables (\<open>ps\<close>
  is the table's policy list). Whenever it writes a row, the row's \<open>updated_at\<close> is
  the current time, whatever the \<open>SET\<close> clause put there, and the row is otherwise
  what the \<open>SET\<close> clause made of the old one: a column \<open>col\<close> other than
  \<open>updated_at\<close> that the \<open>SET\<close> clause leaves alone has its old value.
\<close>

theorem update_sets_updated_at:
  assumes "update_row ps db t uid set_clause OLD = written NEW"
  shows "updated_at NEW = Some t \<and>
         NEW = (set_clause OLD)\<lparr>updated_at := Some t\<rparr> \<and>
         ((\<forall>r u. col (r\<lparr>updated_at := u\<rparr>) = col r) \<and> col (set_clause OLD) = col OLD \<longrightarrow>
            col NEW = col OLD)"
  using assms
  by (auto simp: update_row_def update_updated_at_column_def Let_def split: if_splits)

lemma rls_update_hospitals:
  "rls_update_using hospitals_policies db uid h = exists_profile db uid (\<lambda>c. pr_role c = admin)"
  "rls_update_check hospitals_policies db uid h = exists_profile db uid (\<lambda>c. pr_role c = admin)"
  by (simp_all add: hospitals_policies_def rls_update_using_def rls_update_check_def
      pol_applies_def using_expr_def check_expr_def all_view_hospitals_def
      admins_manage_hospitals_def)

lemma departments_policies_eq:
  "departments_policies = [all_view_departments, medical_staff_manage_departments]"
  by (simp add: departments_policies_def create_policy_def drop_policy_if_exists_def
      all_view_departments_def admins_manage_departments_def)

lemma rls_update_departments:
  "rls_update_using departments_policies db uid d =
     exists_profile db uid (\<lambda>c. pr_role c \<in> set [doctor, admin])"
  "rls_update_check departments_policies db uid d =
     exists_profile db uid (\<lambda>c. pr_role c \<in> set [doctor, admin])"
  by (simp_all add: departments_policies_eq rls_update_using_def rls_update_check_def
      pol_applies_def using_expr_def check_expr_def all_view_departments_def
      medical_staff_manage_departments_def)

lemma demo_updates:
  "update_row referrals_policies demo_db 50 (Some 3)
      (\<lambda>x. x\<lparr>r_status := in_progress, updated_at := Some 7\<rparr>) referral_1 =
    written (referral_1\<lparr>r_status := in_progress, updated_at := Some 50\<rparr>)"
  "update_row patients_policies demo_db 50 (Some 2)
      (\<lambda>x. x\<lparr>pt_phone := Some ''5''\<rparr>) patient_p =
    written (patient_p\<lparr>pt_phone := Some ''5'', updated_at := Some 50\<rparr>)"
  "update_row profiles_policies demo_db 50 (Some 4)
      (\<lambda>x. x\<lparr>pr_phone := Some ''5''\<rparr>) profile_patient =
    written (profile_patient\<lparr>pr_phone := Some ''5'', updated_at := Some 50\<rparr>)"
  "update_row hospitals_policies demo_db 50 (Some 1)
      (\<lambda>x. x\<lparr>h_city := ''Jinja''\<rparr>) hospital_a =
    written (hospital_a\<lparr>h_city := ''Jinja'', updated_at := Some 50\<rparr>)"
  "update_row departments_policies demo_db 50 (Some 2)
      (\<lambda>x. x\<lparr>d_name := ''Cardio''\<rparr>) department_x =
    written (department_x\<lparr>d_name := ''Cardio'', updated_at := Some 50\<rparr>)"
  by (simp_all add: update_row_def update_updated_at_column_def rls_update_using_referrals
      rls_update_check_referrals rls_write_patients rls_update_profiles rls_update_hospitals
      rls_update_departments exists_profile_def demo_defs)

theorem update_sets_updated_at_witness:
  "update_row referrals_policies demo_db 50 (Some 3)
      (\<lambda>x. x\<lparr>r_status := in_progress, updated_at := Some 7\<rparr>) referral_1 =
     written (referral_1\<lparr>r_status := in_progress, updated_at := Some 50\<rparr>) \<and>
   updated_at (referral_1\<lparr>r_status := in_progress, updated_at := Some 50\<rparr>) = Some 50 \<and>
   r_reason (referral_1\<lparr>r_status := in_progress, updated_at := Some 50\<rparr>) = r_reason referral_1 \<and>
   updated_at (patient_p\<lparr>pt_phone := Some ''5'', updated_at := Some 50\<rparr>) = Some 50 \<and>
   updated_at (profile_patient\<lparr>pr_phone := Some ''5'', updated_at := Some 50\<rparr>) = Some 50 \<and>
   updated_at (hospital_a\<lparr>h_city := ''Jinja'', updated_at := Some 50\<rparr>) = Some 50 \<and>
   updated_at (department_x\<lparr>d_name := ''Cardio'', updated_at := Some 50\<rparr>) = Some 50"
  using update_sets_updated_at[OF demo_updates(1), of r_reason]
    update_sets_updated_at[OF demo_updates(2), of pt_full_name]
    update_sets_updated_at[OF demo_updates(3), of pr_role]
    update_sets_updated_at[OF demo_updates(4), of h_name]
    update_sets_updated_at[OF demo_updates(5), of d_hospital_id]
    demo_updates(1)
  by simp

section \<open>Business identifiers\<close>

lemma find_SomeD: "find P xs = Some x \<Longrightarrow> P x \<and> x \<in> set xs"
  by (induction xs) (auto split: if_splits)

lemma distinct_map_replace:
  assumes "distinct (map k xs)" and "distinct (map f xs)"
    and "\<forall>x\<in>set xs. k x \<noteq> key \<longrightarrow> f x \<noteq> f n"
  shows "distinct (map f (map (\<lambda>x. if k x = key then n else x) xs))"
  using assms
proof (induction xs)
  case Nil
  show ?case by simp
next
  case (Cons x xs)
  show ?case
  proof (cases "k x = key")
    case True
    then have others: "\<forall>y\<in>set xs. k y \<noteq> key" using Cons.prems(1) by (auto simp: image_iff)
    then have same: "map (\<lambda>x. if k x = key then n else x) xs = xs" by (simp add: map_idI)
    have "f n \<notin> f ` set xs" using Cons.prems(3) others by force
    then show ?thesis using True Cons.prems(2) same by simp
  next
    case False
    have IH: "distinct (map f (map (\<lambda>x. if k x = key then n else x) xs))"
      using Cons by simp
    have "f x \<noteq> f n" using False Cons.prems(3) by simp
    moreover have "f x \<notin> f ` set xs" using Cons.prems(2) by simp
    ultimately have "f x \<notin> set (map f (map (\<lambda>x. if k x = key then n else x) xs))"
      by (auto simp: image_iff)
    then show ?thesis using False IH by simp
  qed
qed

lemma not_null_replace:
  "None \<notin> set (map f xs) \<Longrightarrow> f n \<noteq> None \<Longrightarrow>
   None \<notin> set (map f (map (\<lambda>x. if k x = key then n else x) xs))"
  by (induction xs) auto

lemma unique_not_null_replace:
  assumes "distinct (map k xs)" and "unique_not_null (map f xs)" and "f n \<noteq> None"
    and "\<not> list_ex (\<lambda>x. k x = k n \<or> sql_eq (f x) (f n)) (filter (\<lambda>x. k x \<noteq> key) xs)"
  shows "unique_not_null (map f (map (\<lambda>x. if k x = key then n else x) xs))"
    and "distinct (map k (map (\<lambda>x. if k x = key then n else x) xs))"
proof -
  have other: "\<forall>x\<in>set xs. k x \<noteq> key \<longrightarrow> k x \<noteq> k n \<and> \<not> sql_eq (f x) (f n)"
    using assms(4) by (auto simp: list_ex_iff)
  have nn: "\<forall>x\<in>set xs. f x \<noteq> None" using assms(2) by (force simp: unique_not_null_def)
  have "\<forall>x\<in>set xs. k x \<noteq> key \<longrightarrow> f x \<noteq> f n"
  proof (intro ballI impI)
    fix x assume x: "x \<in> set xs" "k x \<noteq> key"
    then have "\<not> sql_eq (f x) (f n)" using other by simp
    moreover obtain a b where "f x = Some a" "f n = Some b" using nn x(1) assms(3) by auto
    ultimately show "f x \<noteq> f n" by simp
  qed
  then show "unique_not_null (map f (map (\<lambda>x. if k x = key then n else x) xs))"
    using assms(1-3) unfolding unique_not_null_def
    by (intro conjI distinct_map_replace not_null_replace) simp_all
  show "distinct (map k (map (\<lambda>x. if k x = key then n else x) xs))"
    using assms(1) other by (intro distinct_map_replace) simp_all
qed

lemma unique_not_null_snoc:
  assumes "unique_not_null (map f xs)" and "f n \<noteq> None"
    and "\<not> list_ex (\<lambda>x. k x = k n \<or> sql_eq (f x) (f n)) xs" and "distinct (map k xs)"
  shows "unique_not_null (map f (xs @ [n]))" and "distinct (map k (xs @ [n]))"
proof -
  have other: "\<forall>x\<in>set xs. k x \<noteq> k n \<and> \<not> sql_eq (f x) (f n)"
    using assms(3) by (auto simp: list_ex_iff)
  obtain b where b: "f n = Some b" using assms(2) by auto
  have "f n \<notin> f ` set xs"
  proof
    assume "f n \<in> f ` set xs"
    then obtain x where "x \<in> set xs" "f x = f n" by auto
    then show False using other b by auto
  qed
  then show "unique_not_null (map f (xs @ [n]))"
    using assms(1) b by (auto simp: unique_not_null_def)
  show "distinct (map k (xs @ [n]))" using assms(4) other by auto
qed

lemma unique_not_null_filter:
  "unique_not_null (map f xs) \<Longrightarrow> unique_not_null (map f (filter P xs))"
  by (auto simp: unique_not_null_def distinct_map_filter)

lemma insert_patient_Inr:
  assumes "insert_patient db e uid NEW = Some (Inr db')"
  shows "\<exists>row. set_patient_id_trigger db e NEW = Some row \<and>
     pt_patient_id row \<noteq> None \<and>
     \<not> list_ex (\<lambda>p. pt_id p = pt_id row \<or> sql_eq (pt_patient_id p) (pt_patient_id row))
            (tbl_patients db) \<and>
     db' = db\<lparr>tbl_patients := tbl_patients db @ [row]\<rparr>"
proof (cases "set_patient_id_trigger db e NEW")
  case None
  then show ?thesis using assms by (simp add: insert_patient_def)
next
  case (Some row)
  then show ?thesis using assms by (simp add: insert_patient_def split: if_splits)
qed

lemma insert_referral_Inr:
  assumes "insert_referral db e uid NEW = Some (Inr db')"
  shows "\<exists>row. set_referral_id_trigger db e NEW = Some row \<and>
     r_referral_id row \<noteq> None \<and>
     \<not> list_ex (\<lambda>r. r_id r = r_id row \<or> sql_eq (r_referral_id r) (r_referral_id row))
            (tbl_referrals db) \<and>
     db' = db\<lparr>tbl_referrals := tbl_referrals db @ [row]\<rparr>"
proof (cases "set_referral_id_trigger db e NEW")
  case None
  then show ?thesis using assms by (simp add: insert_referral_def)
next
  case (Some row)
  then show ?thesis using assms by (simp add: insert_referral_def split: if_splits)
qed

lemma update_row_written:
  "update_row ps db t uid sc OLD = written NEW \<Longrightarrow> NEW = (sc OLD)\<lparr>updated_at := Some t\<rparr>"
  by (simp add: update_row_def update_updated_at_column_def Let_def split: if_splits)

lemma update_patient_Inr:
  assumes "update_patient db e uid key sc = Inr db'"
  shows "db' = db \<or>
    (\<exists>OLD NEW. find (\<lambda>p. pt_id p = key) (tbl_patients db) = Some OLD \<and>
       NEW = (sc OLD)\<lparr>updated_at := Some (now e)\<rparr> \<and>
       pt_patient_id NEW \<noteq> None \<and>
       \<not> list_ex (\<lambda>p. pt_id p = pt_id NEW \<or> sql_eq (pt_patient_id p) (pt_patient_id NEW))
            (filter (\<lambda>p. pt_id p \<noteq> key) (tbl_patients db)) \<and>
       db' = db\<lparr>tbl_patients := map (\<lambda>p. if pt_id p = key then NEW else p) (tbl_patients db)\<rparr>)"
proof (cases "find (\<lambda>p. pt_id p = key) (tbl_patients db)")
  case None
  then show ?thesis using assms by (simp add: update_patient_def)
next
  case (Some OLD)
  show ?thesis
  proof (cases "update_row patients_policies db (now e) uid sc OLD")
    case skipped
    then show ?thesis using assms Some by (simp add: update_patient_def)
  next
    case (failed err)
    then show ?thesis using assms Some by (simp add: update_patient_def)
  next
    case (written NEW)
    have NEW: "NEW = (sc OLD)\<lparr>updated_at := Some (now e)\<rparr>"
      using written by (rule update_row_written)
    have "pt_patient_id NEW \<noteq> None \<and>
       \<not> list_ex (\<lambda>p. pt_id p = pt_id NEW \<or> sql_eq (pt_patient_id p) (pt_patient_id NEW))
            (filter (\<lambda>p. pt_id p \<noteq> key) (tbl_patients db)) \<and>
       db' = db\<lparr>tbl_patients := map (\<lambda>p. if pt_id p = key then NEW else p) (tbl_patients db)\<rparr>"
      using assms Some written by (simp add: update_patient_def split: if_splits)
    then show ?thesis using Some NEW by blast
  qed
qed

lemma update_referral_Inr:
  assumes "update_referral db e uid key sc = Inr db'"
  shows "db' = db \<or>
    (\<exists>OLD NEW. find (\<lambda>r. r_id r = key) (tbl_referrals db) = Some OLD \<and>
       NEW = (sc OLD)\<lparr>updated_at := Some (now e)\<rparr> \<and>
       r_referral_id NEW \<noteq> None \<and>
       \<not> list_ex (\<lambda>r. r_id r = r_id NEW \<or> sql_eq (r_referral_id r) (r_referral_id NEW))
            (filter (\<lambda>r. r_id r \<noteq> key) (tbl_referrals db)) \<and>
       db' = db\<lparr>tbl_referrals := map (\<lambda>r. if r_id r = key then NEW else r) (tbl_referrals db)\<rparr>)"
proof (cases "find (\<lambda>r. r_id r = key) (tbl_referrals db)")
  case None
  then show ?thesis using assms by (simp add: update_referral_def)
next
  case (Some OLD)
  show ?thesis
  proof (cases "update_row referrals_policies db (now e) uid sc OLD")
    case skipped
    then show ?thesis using assms Some by (simp add: update_referral_def)
  next
    case (failed err)
    then show ?thesis using assms Some by (simp add: update_referral_def)
  next
    case (written NEW)
    have NEW: "NEW = (sc OLD)\<lparr>updated_at := Some (now e)\<rparr>"
      using written by (rule update_row_written)
    have "r_referral_id NEW \<noteq> None \<and>
       \<not> list_ex (\<lambda>r. r_id r = r_id NEW \<or> sql_eq (r_referral_id r) (r_referral_id NEW))
            (filter (\<lambda>r. r_id r \<noteq> key) (tbl_referrals db)) \<and>
       db' = db\<lparr>tbl_referrals := map (\<lambda>r. if r_id r = key then NEW else r) (tbl_referrals db)\<rparr>"
      using assms Some written by (simp add: update_referral_def split: if_splits)
    then show ?thesis using Some NEW by blast
  qed
qed

lemma set_patient_id_trigger_id:
  "set_patient_id_trigger db e NEW = Some row \<Longrightarrow>
   pt_patient_id row =
     (case pt_patient_id NEW of None \<Rightarrow> generate_patient_id db e | Some s \<Rightarrow> Some s)"
  by (cases "pt_patient_id NEW")
     (auto simp: set_patient_id_trigger_def set_patient_id_def)

lemma set_referral_id_trigger_id:
  "set_referral_id_trigger db e NEW = Some row \<Longrightarrow>
   r_referral_id row =
     (case r_referral_id NEW of None \<Rightarrow> generate_referral_id db e | Some s \<Rightarrow> Some s)"
  by (cases "r_referral_id NEW")
     (auto simp: set_referral_id_trigger_def set_referral_id_def)

lemma insert_patient_constraints:
  assumes "table_constraints db" and "insert_patient db e uid NEW = Some (Inr db')"
  shows "table_constraints db'"
proof -
  from insert_patient_Inr[OF assms(2)] obtain row where row: "pt_patient_id row \<noteq> None"
    "\<not> list_ex (\<lambda>p. pt_id p = pt_id row \<or> sql_eq (pt_patient_id p) (pt_patient_id row))
        (tbl_patients db)"
    "db' = db\<lparr>tbl_patients := tbl_patients db @ [row]\<rparr>"
    by blast
  have "unique_not_null (map pt_patient_id (tbl_patients db))" "distinct (map pt_id (tbl_patients db))"
    using assms(1) by (simp_all add: table_constraints_def)
  from unique_not_null_snoc[OF this(1) row(1,2) this(2)] show ?thesis
    using assms(1) by (simp add: table_constraints_def row(3))
qed

lemma insert_referral_constraints:
  assumes "table_constraints db" and "insert_referral db e uid NEW = Some (Inr db')"
  shows "table_constraints db'"
proof -
  from insert_referral_Inr[OF assms(2)] obtain row where row: "r_referral_id row \<noteq> None"
    "\<not> list_ex (\<lambda>r. r_id r = r_id row \<or> sql_eq (r_referral_id r) (r_referral_id row))
        (tbl_referrals db)"
    "db' = db\<lparr>tbl_referrals := tbl_referrals db @ [row]\<rparr>"
    by blast
  have "unique_not_null (map r_referral_id (tbl_referrals db))" "distinct (map r_id (tbl_referrals db))"
    using assms(1) by (simp_all add: table_constraints_def)
  from unique_not_null_snoc[OF this(1) row(1,2) this(2)] show ?thesis
    using assms(1) by (simp add: table_constraints_def row(3))
qed

lemma update_patient_constraints:
  assumes "table_constraints db" and "update_patient db e uid key sc = Inr db'"
  shows "table_constraints db'"
proof -
  have d: "distinct (map pt_id (tbl_patients db))" "unique_not_null (map pt_patient_id (tbl_patients db))"
    using assms(1) by (simp_all add: table_constraints_def)
  from update_patient_Inr[OF assms(2)] show ?thesis
  proof (elim disjE exE conjE)
    assume "db' = db"
    then show ?thesis using assms(1) by simp
  next
    fix OLD NEW
    assume n: "pt_patient_id NEW \<noteq> None"
      "\<not> list_ex (\<lambda>p. pt_id p = pt_id NEW \<or> sql_eq (pt_patient_id p) (pt_patient_id NEW))
            (filter (\<lambda>p. pt_id p \<noteq> key) (tbl_patients db))"
      and db': "db' = db\<lparr>tbl_patients := map (\<lambda>p. if pt_id p = key then NEW else p) (tbl_patients db)\<rparr>"
    from unique_not_null_replace[OF d n] show ?thesis
      using assms(1) by (simp add: table_constraints_def db')
  qed
qed

lemma update_referral_constraints:
  assumes "table_constraints db" and "update_referral db e uid key sc = Inr db'"
  shows "table_constraints db'"
proof -
  have d: "distinct (map r_id (tbl_referrals db))" "unique_not_null (map r_referral_id (tbl_referrals db))"
    using assms(1) by (simp_all add: table_constraints_def)
  from update_referral_Inr[OF assms(2)] show ?thesis
  proof (elim disjE exE conjE)
    assume "db' = db"
    then show ?thesis using assms(1) by simp
  next
    fix OLD NEW
    assume n: "r_referral_id NEW \<noteq> None"
      "\<not> list_ex (\<lambda>r. r_id r = r_id NEW \<or> sql_eq (r_referral_id r) (r_referral_id NEW))
            (filter (\<lambda>r. r_id r \<noteq> key) (tbl_referrals db))"
      and db': "db' = db\<lparr>tbl_referrals := map (\<lambda>r. if r_id r = key then NEW else r) (tbl_referrals db)\<rparr>"
    from unique_not_null_replace[OF d n] show ?thesis
      using assms(1) by (simp add: table_constraints_def db')
  qed
qed

lemma delete_constraints:
  assumes "table_constraints db"
  shows "table_constraints (delete_patient db uid key)" and "table_constraints (delete_referral db uid key)"
  using assms
  by (simp_all add: table_constraints_def delete_patient_def delete_referral_def Let_def
      unique_not_null_filter distinct_map_filter)

lemma replace_keeps_column:
  assumes "distinct (map k xs)" and "find (\<lambda>x. k x = key) xs = Some old" and "f n = f old"
  shows "map f (map (\<lambda>x. if k x = key then n else x) xs) = map f xs"
proof -
  have old: "k old = key" "old \<in> set xs" using find_SomeD[OF assms(2)] by simp_all
  have inj: "inj_on k (set xs)" using assms(1) by (simp add: distinct_map)
  have "f (if k x = key then n else x) = f x" if "x \<in> set xs" for x
  proof (cases "k x = key")
    case True
    then have "x = old" using inj that old by (simp add: inj_on_def)
    then show ?thesis using True assms(3) by simp
  next
    case False
    then show ?thesis by simp
  qed
  then show ?thesis by simp
qed

lemma update_patient_keeps_id:
  assumes "table_constraints db" and "update_patient db e uid key sc = Inr db'"
    and "\<forall>p. pt_patient_id (sc p) = pt_patient_id p"
  shows "map pt_patient_id (tbl_patients db') = map pt_patient_id (tbl_patients db)"
proof -
  have d: "distinct (map pt_id (tbl_patients db))" using assms(1) by (simp add: table_constraints_def)
  from update_patient_Inr[OF assms(2)] show ?thesis
  proof (elim disjE exE conjE)
    assume "db' = db"
    then show ?thesis by simp
  next
    fix OLD NEW
    assume f: "find (\<lambda>p. pt_id p = key) (tbl_patients db) = Some OLD"
      and n: "NEW = (sc OLD)\<lparr>updated_at := Some (now e)\<rparr>"
      and db': "db' = db\<lparr>tbl_patients := map (\<lambda>p. if pt_id p = key then NEW else p) (tbl_patients db)\<rparr>"
    have "pt_patient_id NEW = pt_patient_id OLD" using n assms(3) by simp
    from replace_keeps_column[OF d f this] show ?thesis by (simp add: db')
  qed
qed

lemma update_referral_keeps_id:
  assumes "table_constraints db" and "update_referral db e uid key sc = Inr db'"
    and "\<forall>r. r_referral_id (sc r) = r_referral_id r"
  shows "map r_referral_id (tbl_referrals db') = map r_referral_id (tbl_referrals db)"
proof -
  have d: "distinct (map r_id (tbl_referrals db))" using assms(1) by (simp add: table_constraints_def)
  from update_referral_Inr[OF assms(2)] show ?thesis
  proof (elim disjE exE conjE)
    assume "db' = db"
    then show ?thesis by simp
  next
    fix OLD NEW
    assume f: "find (\<lambda>r. r_id r = key) (tbl_referrals db) = Some OLD"
      and n: "NEW = (sc OLD)\<lparr>updated_at := Some (now e)\<rparr>"
      and db': "db' = db\<lparr>tbl_referrals := map (\<lambda>r. if r_id r = key then NEW else r) (tbl_referrals db)\<rparr>"
    have "r_referral_id NEW = r_referral_id OLD" using n assms(3) by simp
    from replace_keeps_column[OF d f this] show ?thesis by (simp add: db')
  qed
qed

lemma delete_patient_patients:
  "tbl_patients (delete_patient db uid key) =
     filter (\<lambda>p. \<not> (pt_id p = key \<and>
                    exists_profile db uid (\<lambda>c. pr_role c \<in> set [doctor, admin])))
       (tbl_patients db)"
  by (simp add: delete_patient_def Let_def rls_write_patients)

lemma delete_patient_eq:
  "delete_patient db uid key =
     db\<lparr>tbl_patients :=
          filter (\<lambda>p. \<not> (pt_id p = key \<and>
                         exists_profile db uid (\<lambda>c. pr_role c \<in> set [doctor, admin])))
            (tbl_patients db),
        tbl_referrals :=
          filter (\<lambda>r. \<not> (r_patient_id r = key \<and>
                         list_ex (\<lambda>p. pt_id p = key) (tbl_patients db) \<and>
                         exists_profile db uid (\<lambda>c. pr_role c \<in> set [doctor, admin])))
            (tbl_referrals db)\<rparr>"
proof -
  have "delete_patient db uid key =
          db\<lparr>tbl_patients := tbl_patients (delete_patient db uid key),
             tbl_referrals := tbl_referrals (delete_patient db uid key)\<rparr>"
    by (simp add: delete_patient_def Let_def)
  then show ?thesis
    by (simp only: delete_patient_patients delete_patient_referrals)
qed

lemma update_patient_any_free_value:
  assumes staff: "exists_profile db uid (\<lambda>c. pr_role c \<in> set [doctor, admin])"
    and old: "find (\<lambda>p. pt_id p = key) (tbl_patients db) = Some OLD"
    and fk: "patient_fks_ok db OLD"
    and free: "\<forall>p\<in>set (tbl_patients db). pt_id p \<noteq> key \<longrightarrow> pt_patient_id p \<noteq> Some v"
  shows "update_patient db e uid key (\<lambda>p. p\<lparr>pt_patient_id := Some v\<rparr>) =
           Inr (db\<lparr>tbl_patients :=
                  map (\<lambda>p. if pt_id p = key
                            then OLD\<lparr>pt_patient_id := Some v, updated_at := Some (now e)\<rparr>
                            else p)
                    (tbl_patients db)\<rparr>)"
proof -
  have key: "pt_id OLD = key" using find_SomeD[OF old] by simp
  have row: "update_row patients_policies db (now e) uid (\<lambda>p. p\<lparr>pt_patient_id := Some v\<rparr>) OLD =
               written (OLD\<lparr>pt_patient_id := Some v, updated_at := Some (now e)\<rparr>)"
    using staff by (simp add: update_row_def update_updated_at_column_def rls_write_patients)
  have uniq: "\<not> list_ex (\<lambda>p. pt_id p = key \<or> sql_eq (pt_patient_id p) (Some v))
                  (filter (\<lambda>p. pt_id p \<noteq> key) (tbl_patients db))"
    using free by (auto simp: list_ex_iff sql_eq_Some_right)
  have fk': "patient_fks_ok db (OLD\<lparr>pt_patient_id := Some v, updated_at := Some (now e)\<rparr>)"
    using fk by (simp add: patient_fks_ok_def)
  show ?thesis
    using uniq fk' key by (simp add: update_patient_def old row)
qed

lemma update_referral_any_free_value:
  assumes may: "rls_update_using referrals_policies db uid OLD"
    and old: "find (\<lambda>r. r_id r = key) (tbl_referrals db) = Some OLD"
    and fk: "referral_fks_ok db OLD"
    and free: "\<forall>r\<in>set (tbl_referrals db). r_id r \<noteq> key \<longrightarrow> r_referral_id r \<noteq> Some v"
  shows "update_referral db e uid key (\<lambda>r. r\<lparr>r_referral_id := Some v\<rparr>) =
           Inr (db\<lparr>tbl_referrals :=
                  map (\<lambda>r. if r_id r = key
                            then OLD\<lparr>r_referral_id := Some v, updated_at := Some (now e)\<rparr>
                            else r)
                    (tbl_referrals db)\<rparr>)"
proof -
  have key: "r_id OLD = key" using find_SomeD[OF old] by simp
  have may': "rls_update_using referrals_policies db uid
                (OLD\<lparr>r_referral_id := Some v, updated_at := Some (now e)\<rparr>)"
    using may by (simp add: rls_update_using_referrals)
  have row: "update_row referrals_policies db (now e) uid (\<lambda>r. r\<lparr>r_referral_id := Some v\<rparr>) OLD =
               written (OLD\<lparr>r_referral_id := Some v, updated_at := Some (now e)\<rparr>)"
    using may may' by (simp add: update_row_referrals)
  have uniq: "\<not> list_ex (\<lambda>r. r_id r = key \<or> sql_eq (r_referral_id r) (Some v))
                  (filter (\<lambda>r. r_id r \<noteq> key) (tbl_referrals db))"
    using free by (auto simp: list_ex_iff sql_eq_Some_right)
  have fk': "referral_fks_ok db (OLD\<lparr>r_referral_id := Some v, updated_at := Some (now e)\<rparr>)"
    using fk by (simp add: referral_fks_ok_def)
  show ?thesis
    using uniq fk' key by (simp add: update_referral_def old row)
qed

lemma update_patient_result:
  assumes "update_patient db e uid key sc = Inr db'"
  shows "db' = db \<or>
    (\<exists>OLD. find (\<lambda>p. pt_id p = key) (tbl_patients db) = Some OLD \<and>
       db' = db\<lparr>tbl_patients :=
                  map (\<lambda>p. if pt_id p = key then (sc OLD)\<lparr>updated_at := Some (now e)\<rparr> else p)
                    (tbl_patients db)\<rparr>)"
  using update_patient_Inr[OF assms] by blast

lemma update_referral_result:
  assumes "update_referral db e uid key sc = Inr db'"
  shows "db' = db \<or>
    (\<exists>OLD. find (\<lambda>r. r_id r = key) (tbl_referrals db) = Some OLD \<and>
       db' = db\<lparr>tbl_referrals :=
                  map (\<lambda>r. if r_id r = key then (sc OLD)\<lparr>updated_at := Some (now e)\<rparr> else r)
                    (tbl_referrals db)\<rparr>)"
  using update_referral_Inr[OF assms] by blast

text \<open>
  C6, as the code has it. In a database that satisfies the primary keys and the
  \<open>UNIQUE NOT NULL\<close> constraints of \<open>patient_id\<close> and \<open>referral_id\<close>, every insert,
  update and delete that succeeds leaves them satisfied: the business identifiers
  stay unique and non-NULL. An insert appends one row and changes nothing else; the
  new row's identifier is the supplied one, and a generated one only when none was
  supplied. A successful update changes nothing, or replaces the row of the given
  key by what the \<open>SET\<close> clause and the trigger make of it and changes nothing
  else; when the \<open>SET\<close> clause does not touch the identifier, every row keeps its
  identifier. A delete on patients removes rows of patients and, by the cascade, of
  referrals, and leaves every remaining row as it was; a delete on referrals changes
  nothing. The identifier is not immutable: a caller the \<open>UPDATE\<close> policies admit
  (a doctor or admin on patients; the target specialist or a specialist of the
  target hospital on referrals) can set the identifier of an existing row, whose
  foreign keys hold, to any value that no other row holds.
\<close>

theorem business_ids_unique_assigned_at_creation:
  assumes "table_constraints db"
  shows "(insert_patient db e uid NEWp = Some (Inr db1) \<longrightarrow>
            table_constraints db1 \<and>
            (\<exists>row. db1 = db\<lparr>tbl_patients := tbl_patients db @ [row]\<rparr> \<and>
               pt_patient_id row =
                 (case pt_patient_id NEWp of None \<Rightarrow> generate_patient_id db e
                  | Some s \<Rightarrow> Some s))) \<and>
         (insert_referral db e uid NEWr = Some (Inr db2) \<longrightarrow>
            table_constraints db2 \<and>
            (\<exists>row. db2 = db\<lparr>tbl_referrals := tbl_referrals db @ [row]\<rparr> \<and>
               r_referral_id row =
                 (case r_referral_id NEWr of None \<Rightarrow> generate_referral_id db e
                  | Some s \<Rightarrow> Some s))) \<and>
         (update_patient db e uid key scp = Inr db3 \<longrightarrow>
            table_constraints db3 \<and>
            (db3 = db \<or>
             (\<exists>OLD. find (\<lambda>p. pt_id p = key) (tbl_patients db) = Some OLD \<and>
                db3 = db\<lparr>tbl_patients :=
                          map (\<lambda>p. if pt_id p = key
                                    then (scp OLD)\<lparr>updated_at := Some (now e)\<rparr> else p)
                            (tbl_patients db)\<rparr>)) \<and>
            ((\<forall>p. pt_patient_id (scp p) = pt_patient_id p) \<longrightarrow>
               map pt_patient_id (tbl_patients db3) = map pt_patient_id (tbl_patients db))) \<and>
         (update_referral db e uid key scr = Inr db4 \<longrightarrow>
            table_constraints db4 \<and>
            (db4 = db \<or>
             (\<exists>OLD. find (\<lambda>r. r_id r = key) (tbl_referrals db) = Some OLD \<and>
                db4 = db\<lparr>tbl_referrals :=
                          map (\<lambda>r. if r_id r = key
                                    then (scr OLD)\<lparr>updated_at := Some (now e)\<rparr> else r)
                            (tbl_referrals db)\<rparr>)) \<and>
            ((\<forall>r. r_referral_id (scr r) = r_referral_id r) \<longrightarrow>
               map r_referral_id (tbl_referrals db4) = map r_referral_id (tbl_referrals db))) \<and>
         table_constraints (delete_patient db uid key) \<and>
         delete_patient db uid key =
           db\<lparr>tbl_patients :=
                filter (\<lambda>p. \<not> (pt_id p = key \<and>
                               exists_profile db uid (\<lambda>c. pr_role c \<in> set [doctor, admin])))
                  (tbl_patients db),
              tbl_referrals :=
                filter (\<lambda>r. \<not> (r_patient_id r = key \<and>
                               list_ex (\<lambda>p. pt_id p = key) (tbl_patients db) \<and>
                               exists_profile db uid (\<lambda>c. pr_role c \<in> set [doctor, admin])))
                  (tbl_referrals db)\<rparr> \<and>
         delete_referral db uid key = db \<and>
         (exists_profile db uid (\<lambda>c. pr_role c \<in> set [doctor, admin]) \<and>
          find (\<lambda>p. pt_id p = key) (tbl_patients db) = Some OLDp \<and>
          patient_fks_ok db OLDp \<and>
          (\<forall>p\<in>set (tbl_patients db). pt_id p \<noteq> key \<longrightarrow> pt_patient_id p \<noteq> Some v) \<longrightarrow>
            update_patient db e uid key (\<lambda>p. p\<lparr>pt_patient_id := Some v\<rparr>) =
              Inr (db\<lparr>tbl_patients :=
                     map (\<lambda>p. if pt_id p = key
                               then OLDp\<lparr>pt_patient_id := Some v, updated_at := Some (now e)\<rparr>
                               else p)
                       (tbl_patients db)\<rparr>)) \<and>
         (rls_update_using referrals_policies db uid OLDr \<and>
          find (\<lambda>r. r_id r = key) (tbl_referrals db) = Some OLDr \<and>
          referral_fks_ok db OLDr \<and>
          (\<forall>r\<in>set (tbl_referrals db). r_id r \<noteq> key \<longrightarrow> r_referral_id r \<noteq> Some w) \<longrightarrow>
            update_referral db e uid key (\<lambda>r. r\<lparr>r_referral_id := Some w\<rparr>) =
              Inr (db\<lparr>tbl_referrals :=
                     map (\<lambda>r. if r_id r = key
                               then OLDr\<lparr>r_referral_id := Some w, updated_at := Some (now e)\<rparr>
                               else r)
                       (tbl_referrals db)\<rparr>))"
proof (intro conjI impI)
  assume ins: "insert_patient db e uid NEWp = Some (Inr db1)"
  show "table_constraints db1" using assms ins by (rule insert_patient_constraints)
  from insert_patient_Inr[OF ins] obtain row
    where row: "set_patient_id_trigger db e NEWp = Some row"
      "db1 = db\<lparr>tbl_patients := tbl_patients db @ [row]\<rparr>"
    by blast
  show "\<exists>row. db1 = db\<lparr>tbl_patients := tbl_patients db @ [row]\<rparr> \<and>
           pt_patient_id row =
             (case pt_patient_id NEWp of None \<Rightarrow> generate_patient_id db e | Some s \<Rightarrow> Some s)"
    using set_patient_id_trigger_id[OF row(1)] row(2) by blast
next
  assume ins: "insert_referral db e uid NEWr = Some (Inr db2)"
  show "table_constraints db2" using assms ins by (rule insert_referral_constraints)
  from insert_referral_Inr[OF ins] obtain row
    where row: "set_referral_id_trigger db e NEWr = Some row"
      "db2 = db\<lparr>tbl_referrals := tbl_referrals db @ [row]\<rparr>"
    by blast
  show "\<exists>row. db2 = db\<lparr>tbl_referrals := tbl_referrals db @ [row]\<rparr> \<and>
           r_referral_id row =
             (case r_referral_id NEWr of None \<Rightarrow> generate_referral_id db e | Some s \<Rightarrow> Some s)"
    using set_referral_id_trigger_id[OF row(1)] row(2) by blast
next
  assume up: "update_patient db e uid key scp = Inr db3"
  show "table_constraints db3" using assms up by (rule update_patient_constraints)
  show "db3 = db \<or>
             (\<exists>OLD. find (\<lambda>p. pt_id p = key) (tbl_patients db) = Some OLD \<and>
                db3 = db\<lparr>tbl_patients :=
                          map (\<lambda>p. if pt_id p = key
                                    then (scp OLD)\<lparr>updated_at := Some (now e)\<rparr> else p)
                            (tbl_patients db)\<rparr>)"
    using up by (rule update_patient_result)
  assume "\<forall>p. pt_patient_id (scp p) = pt_patient_id p"
  with assms up show "map pt_patient_id (tbl_patients db3) = map pt_patient_id (tbl_patients db)"
    by (rule update_patient_keeps_id)
next
  assume up: "update_referral db e uid key scr = Inr db4"
  show "table_constraints db4" using assms up by (rule update_referral_constraints)
  show "db4 = db \<or>
             (\<exists>OLD. find (\<lambda>r. r_id r = key) (tbl_referrals db) = Some OLD \<and>
                db4 = db\<lparr>tbl_referrals :=
                          map (\<lambda>r. if r_id r = key
                                    then (scr OLD)\<lparr>updated_at := Some (now e)\<rparr> else r)
                            (tbl_referrals db)\<rparr>)"
    using up by (rule update_referral_result)
  assume "\<forall>r. r_referral_id (scr r) = r_referral_id r"
  with assms up show "map r_referral_id (tbl_referrals db4) = map r_referral_id (tbl_referrals db)"
    by (rule update_referral_keeps_id)
next
  show "table_constraints (delete_patient db uid key)" using assms by (rule delete_constraints)
  show "delete_patient db uid key =
           db\<lparr>tbl_patients :=
                filter (\<lambda>p. \<not> (pt_id p = key \<and>
                               exists_profile db uid (\<lambda>c. pr_role c \<in> set [doctor, admin])))
                  (tbl_patients db),
              tbl_referrals :=
                filter (\<lambda>r. \<not> (r_patient_id r = key \<and>
                               list_ex (\<lambda>p. pt_id p = key) (tbl_patients db) \<and>
                               exists_profile db uid (\<lambda>c. pr_role c \<in> set [doctor, admin])))
                  (tbl_referrals db)\<rparr>"
    by (rule delete_patient_eq)
  show "delete_referral db uid key = db" by (rule delete_referral_noop)
next
  assume "exists_profile db uid (\<lambda>c. pr_role c \<in> set [doctor, admin]) \<and>
          find (\<lambda>p. pt_id p = key) (tbl_patients db) = Some OLDp \<and>
          patient_fks_ok db OLDp \<and>
          (\<forall>p\<in>set (tbl_patients db). pt_id p \<noteq> key \<longrightarrow> pt_patient_id p \<noteq> Some v)"
  then show "update_patient db e uid key (\<lambda>p. p\<lparr>pt_patient_id := Some v\<rparr>) =
              Inr (db\<lparr>tbl_patients :=
                     map (\<lambda>p. if pt_id p = key
                               then OLDp\<lparr>pt_patient_id := Some v, updated_at := Some (now e)\<rparr>
                               else p)
                       (tbl_patients db)\<rparr>)"
    by (intro update_patient_any_free_value) simp_all
next
  assume "rls_update_using referrals_policies db uid OLDr \<and>
          find (\<lambda>r. r_id r = key) (tbl_referrals db) = Some OLDr \<and>
          referral_fks_ok db OLDr \<and>
          (\<forall>r\<in>set (tbl_referrals db). r_id r \<noteq> key \<longrightarrow> r_referral_id r \<noteq> Some w)"
  then show "update_referral db e uid key (\<lambda>r. r\<lparr>r_referral_id := Some w\<rparr>) =
              Inr (db\<lparr>tbl_referrals :=
                     map (\<lambda>r. if r_id r = key
                               then OLDr\<lparr>r_referral_id := Some w, updated_at := Some (now e)\<rparr>
                               else r)
                       (tbl_referrals db)\<rparr>)"
    by (intro update_referral_any_free_value) simp_all
qed

lemma demo_constraints: "table_constraints demo_db"
  by (simp add: table_constraints_def unique_not_null_def demo_defs)

lemma demo_patient_trigger:
  "set_patient_id_trigger demo_db demo_env (patient_p\<lparr>pt_id := 101, pt_patient_id := None\<rparr>) =
     Some (patient_p\<lparr>pt_id := 101, pt_patient_id := Some ''PAT-2025-499999''\<rparr>)"
  by (simp add: set_patient_id_trigger_def set_patient_id_def demo_generate)

lemma demo_insert_patient:
  "insert_patient demo_db demo_env (Some 2) (patient_p\<lparr>pt_id := 101, pt_patient_id := None\<rparr>) =
     Some (Inr (demo_db\<lparr>tbl_patients :=
       [patient_p, patient_p\<lparr>pt_id := 101, pt_patient_id := Some ''PAT-2025-499999''\<rparr>]\<rparr>))"
  unfolding insert_patient_def demo_patient_trigger
  by (simp add: rls_write_patients patient_fks_ok_def exists_profile_def demo_defs)

lemma demo_insert_patient_supplied:
  "insert_patient demo_db demo_env (Some 2)
       (patient_p\<lparr>pt_id := 101, pt_patient_id := Some ''X-1''\<rparr>) =
     Some (Inr (demo_db\<lparr>tbl_patients :=
       [patient_p, patient_p\<lparr>pt_id := 101, pt_patient_id := Some ''X-1''\<rparr>]\<rparr>))"
  by (simp add: insert_patient_def set_patient_id_trigger_def
      rls_write_patients patient_fks_ok_def exists_profile_def demo_defs)

lemma demo_update_referral_status:
  "update_referral demo_db demo_env (Some 3) 200 (\<lambda>r. r\<lparr>r_status := in_progress\<rparr>) =
     Inr (demo_db\<lparr>tbl_referrals :=
            [referral_1\<lparr>r_status := in_progress, updated_at := Some 50\<rparr>]\<rparr>)"
  by (simp add: update_referral_def update_row_referrals rls_update_using_referrals
      referral_fks_ok_def exists_profile_def demo_defs)

theorem business_ids_witness:
  "table_constraints demo_db \<and>
   insert_patient demo_db demo_env (Some 2) (patient_p\<lparr>pt_id := 101, pt_patient_id := None\<rparr>) =
     Some (Inr (demo_db\<lparr>tbl_patients :=
       [patient_p, patient_p\<lparr>pt_id := 101, pt_patient_id := Some ''PAT-2025-499999''\<rparr>]\<rparr>)) \<and>
   table_constraints (demo_db\<lparr>tbl_patients :=
       [patient_p, patient_p\<lparr>pt_id := 101, pt_patient_id := Some ''PAT-2025-499999''\<rparr>]\<rparr>) \<and>
   insert_patient demo_db demo_env (Some 2)
       (patient_p\<lparr>pt_id := 101, pt_patient_id := Some ''X-1''\<rparr>) =
     Some (Inr (demo_db\<lparr>tbl_patients :=
       [patient_p, patient_p\<lparr>pt_id := 101, pt_patient_id := Some ''X-1''\<rparr>]\<rparr>)) \<and>
   table_constraints (demo_db\<lparr>tbl_patients :=
       [patient_p, patient_p\<lparr>pt_id := 101, pt_patient_id := Some ''X-1''\<rparr>]\<rparr>) \<and>
   update_referral demo_db demo_env (Some 3) 200 (\<lambda>r. r\<lparr>r_status := in_progress\<rparr>) =
     Inr (demo_db\<lparr>tbl_referrals :=
            [referral_1\<lparr>r_status := in_progress, updated_at := Some 50\<rparr>]\<rparr>) \<and>
   map r_referral_id
     (tbl_referrals (demo_db\<lparr>tbl_referrals :=
        [referral_1\<lparr>r_status := in_progress, updated_at := Some 50\<rparr>]\<rparr>)) =
     map r_referral_id (tbl_referrals demo_db) \<and>
   update_referral demo_db demo_env (Some 3) 200
       (\<lambda>r. r\<lparr>r_referral_id := Some ''REF-1999-000000''\<rparr>) =
     Inr (demo_db\<lparr>tbl_referrals :=
            [referral_1\<lparr>r_referral_id := Some ''REF-1999-000000'', updated_at := Some 50\<rparr>]\<rparr>) \<and>
   delete_patient demo_db (Some 3) 100 = demo_db \<and>
   delete_referral demo_db (Some 1) 200 = demo_db"
proof -
  note t1 = business_ids_unique_assigned_at_creation[OF demo_constraints, THEN conjunct1,
      THEN mp, OF demo_insert_patient, THEN conjunct1]
  note t2 = business_ids_unique_assigned_at_creation[OF demo_constraints, THEN conjunct1,
      THEN mp, OF demo_insert_patient_supplied, THEN conjunct1]
  have t3: "map r_referral_id
     (tbl_referrals (demo_db\<lparr>tbl_referrals :=
        [referral_1\<lparr>r_status := in_progress, updated_at := Some 50\<rparr>]\<rparr>)) =
     map r_referral_id (tbl_referrals demo_db)"
    by (rule business_ids_unique_assigned_at_creation[OF demo_constraints,
          THEN conjunct2, THEN conjunct2, THEN conjunct2, THEN conjunct1,
          THEN mp, OF demo_update_referral_status, THEN conjunct2, THEN conjunct2, THEN mp])
       simp
  have "update_referral demo_db demo_env (Some 3) 200
       (\<lambda>r. r\<lparr>r_referral_id := Some ''REF-1999-000000''\<rparr>) =
     Inr (demo_db\<lparr>tbl_referrals :=
            map (\<lambda>r. if r_id r = 200
                      then referral_1\<lparr>r_referral_id := Some ''REF-1999-000000'',
                                      updated_at := Some (now demo_env)\<rparr>
                      else r)
              (tbl_referrals demo_db)\<rparr>)"
    by (rule business_ids_unique_assigned_at_creation[OF demo_constraints,
          THEN conjunct2, THEN conjunct2, THEN conjunct2, THEN conjunct2, THEN conjunct2, THEN conjunct2, THEN conjunct2, THEN conjunct2, THEN mp])
       (simp add: rls_update_using_referrals referral_fks_ok_def exists_profile_def demo_defs)
  then have t4: "update_referral demo_db demo_env (Some 3) 200
       (\<lambda>r. r\<lparr>r_referral_id := Some ''REF-1999-000000''\<rparr>) =
     Inr (demo_db\<lparr>tbl_referrals :=
            [referral_1\<lparr>r_referral_id := Some ''REF-1999-000000'', updated_at := Some 50\<rparr>]\<rparr>)"
    by (simp add: demo_defs)
  have "delete_patient demo_db (Some 3) 100 =
          demo_db\<lparr>tbl_patients :=
                filter (\<lambda>p. \<not> (pt_id p = 100 \<and>
                               exists_profile demo_db (Some 3) (\<lambda>c. pr_role c \<in> set [doctor, admin])))
                  (tbl_patients demo_db),
              tbl_referrals :=
                filter (\<lambda>r. \<not> (r_patient_id r = 100 \<and>
                               list_ex (\<lambda>p. pt_id p = 100) (tbl_patients demo_db) \<and>
                               exists_profile demo_db (Some 3) (\<lambda>c. pr_role c \<in> set [doctor, admin])))
                  (tbl_referrals demo_db)\<rparr>"
    by (rule business_ids_unique_assigned_at_creation[OF demo_constraints,
          THEN conjunct2, THEN conjunct2, THEN conjunct2, THEN conjunct2, THEN conjunct2, THEN conjunct1])
  then have t5: "delete_patient demo_db (Some 3) 100 = demo_db"
    by (simp add: exists_profile_def demo_defs)
  have t6: "delete_referral demo_db (Some 1) 200 = demo_db"
    by (rule business_ids_unique_assigned_at_creation[OF demo_constraints,
          THEN conjunct2, THEN conjunct2, THEN conjunct2, THEN conjunct2, THEN conjunct2, THEN conjunct2, THEN conjunct1])
  show ?thesis
    using t1 t2 t3 t4 t5 t6 demo_constraints demo_insert_patient demo_insert_patient_supplied
      demo_update_referral_status
    by (intro conjI)
qed

text \<open>
  C6 as stated fails: a doctor's \<open>UPDATE patients SET patient_id = ...\<close> is written and
  changes the identifier of an existing patient.
\<close>

theorem patient_id_changed_counterexample:
  "pt_patient_id patient_p = Some ''PAT-2025-000001'' \<and>
   update_patient demo_db demo_env (Some 2) 100 (\<lambda>p. p\<lparr>pt_patient_id := Some ''PAT-1999-000000''\<rparr>) =
     Inr (demo_db\<lparr>tbl_patients :=
       [patient_p\<lparr>pt_patient_id := Some ''PAT-1999-000000'', updated_at := Some 50\<rparr>]\<rparr>)"
  by (simp add: update_patient_def update_row_def update_updated_at_column_def
      rls_write_patients patient_fks_ok_def exists_profile_def demo_defs)

section \<open>The public read of a referral\<close>

lemma left_join_nonempty: "left_join c xs \<noteq> []"
  by (simp add: left_join_def split: list.splits)

lemma set_left_join:
  "x \<in> set (left_join c xs) \<longleftrightarrow>
     (\<exists>q\<in>set xs. c q \<and> x = Some q) \<or> (x = None \<and> \<not> (\<exists>q\<in>set xs. c q))"
proof (cases "filter c xs")
  case Nil
  then have "\<not> (\<exists>q\<in>set xs. c q)" by (simp add: filter_empty_conv)
  then show ?thesis using Nil by (auto simp: left_join_def)
next
  case (Cons y ys)
  then have "set (left_join c xs) = Some ` set (filter c xs)" by (simp add: left_join_def)
  moreover have "\<exists>q\<in>set xs. c q"
    using Cons by (metis filter_empty_conv list.distinct(1))
  ultimately show ?thesis by auto
qed

lemma left_join_map:
  "left_join c (map g xs) = map (map_option g) (left_join (\<lambda>x. c (g x)) xs)"
proof -
  have f: "filter c (map g xs) = map g (filter (\<lambda>x. c (g x)) xs)"
    by (simp add: filter_map o_def)
  show ?thesis
    unfolding left_join_def f
    by (cases "filter (\<lambda>x. c (g x)) xs") simp_all
qed

lemma set_referral_public_rows:
  "x \<in> set (referral_public_rows UPPER db sid) \<longleftrightarrow>
     (\<exists>r p d sp oh th td.
        r \<in> set (tbl_referrals db) \<and> r_referral_id r = Some (UPPER sid) \<and>
        p \<in> set (tbl_patients db) \<and> pt_id p = r_patient_id r \<and>
        d \<in> set (left_join (\<lambda>d. pr_id d = r_referring_doctor_id r) (tbl_profiles db)) \<and>
        sp \<in> set (left_join (\<lambda>s. sql_eq (Some (pr_id s)) (r_target_specialist_id r))
                   (tbl_profiles db)) \<and>
        oh \<in> set (tbl_hospitals db) \<and> h_id oh = r_origin_hospital_id r \<and>
        th \<in> set (tbl_hospitals db) \<and> h_id th = r_target_hospital_id r \<and>
        td \<in> set (tbl_departments db) \<and> d_id td = r_target_department_id r \<and>
        x = select_list r p d sp oh th td)"
  unfolding referral_public_rows_def
  apply (auto simp: sql_eq_Some_right)
   apply blast
  apply blast
  done

lemma referral_public_rows_none:
  assumes "\<not> list_ex (\<lambda>r. sql_eq (r_referral_id r) (Some (UPPER sid))) (tbl_referrals db)"
  shows "referral_public_rows UPPER db sid = []"
proof -
  have "x \<notin> set (referral_public_rows UPPER db sid)" for x
    using assms by (auto simp: set_referral_public_rows list_ex_iff sql_eq_Some_right)
  then show ?thesis by (cases "referral_public_rows UPPER db sid") auto
qed

lemma referral_public_rows_some:
  assumes fk: "referrals_fk_integrity db"
    and m: "list_ex (\<lambda>r. sql_eq (r_referral_id r) (Some (UPPER sid))) (tbl_referrals db)"
  shows "referral_public_rows UPPER db sid \<noteq> []"
proof -
  from m obtain r where r: "r \<in> set (tbl_referrals db)" "r_referral_id r = Some (UPPER sid)"
    by (auto simp: list_ex_iff sql_eq_Some_right)
  have "referral_fks_ok db r" using fk r(1) by (simp add: referrals_fk_integrity_def list_all_iff)
  then obtain p oh th td where j: "p \<in> set (tbl_patients db)" "pt_id p = r_patient_id r"
    "oh \<in> set (tbl_hospitals db)" "h_id oh = r_origin_hospital_id r"
    "th \<in> set (tbl_hospitals db)" "h_id th = r_target_hospital_id r"
    "td \<in> set (tbl_departments db)" "d_id td = r_target_department_id r"
    unfolding referral_fks_ok_def list_ex_iff by blast
  obtain d where d: "d \<in> set (left_join (\<lambda>d. pr_id d = r_referring_doctor_id r) (tbl_profiles db))"
    using left_join_nonempty[of "\<lambda>d. pr_id d = r_referring_doctor_id r" "tbl_profiles db"]
    by (cases "left_join (\<lambda>d. pr_id d = r_referring_doctor_id r) (tbl_profiles db)") auto
  obtain sp where sp: "sp \<in> set (left_join (\<lambda>s. sql_eq (Some (pr_id s)) (r_target_specialist_id r))
                   (tbl_profiles db))"
    using left_join_nonempty[of "\<lambda>s. sql_eq (Some (pr_id s)) (r_target_specialist_id r)" "tbl_profiles db"]
    by (cases "left_join (\<lambda>s. sql_eq (Some (pr_id s)) (r_target_specialist_id r)) (tbl_profiles db)") auto
  have "select_list r p d sp oh th td \<in> set (referral_public_rows UPPER db sid)"
    unfolding set_referral_public_rows using r j d sp by blast
  then show ?thesis by auto
qed

lemma joined_doctor:
  assumes "referral_fks_ok db r"
    and "d \<in> set (left_join (\<lambda>d. pr_id d = r_referring_doctor_id r) (tbl_profiles db))"
  shows "\<exists>q\<in>set (tbl_profiles db). pr_id q = r_referring_doctor_id r \<and> d = Some q"
proof -
  have "\<exists>q\<in>set (tbl_profiles db). pr_id q = r_referring_doctor_id r"
    using assms(1) by (simp add: referral_fks_ok_def list_ex_iff)
  then show ?thesis using assms(2) unfolding set_left_join by blast
qed

lemma joined_specialist:
  assumes "referral_fks_ok db r"
    and "sp \<in> set (left_join (\<lambda>s. sql_eq (Some (pr_id s)) (r_target_specialist_id r))
                   (tbl_profiles db))"
  shows "case r_target_specialist_id r of
           None \<Rightarrow> sp = None
         | Some i \<Rightarrow> \<exists>q\<in>set (tbl_profiles db). pr_id q = i \<and> sp = Some q"
proof (cases "r_target_specialist_id r")
  case None
  then show ?thesis using assms(2) unfolding set_left_join by auto
next
  case (Some i)
  then have "\<exists>q\<in>set (tbl_profiles db). pr_id q = i"
    using assms(1) by (simp add: referral_fks_ok_def list_ex_iff)
  then show ?thesis using assms(2) Some unfolding set_left_join by auto
qed

lemma referral_public_rows_columns:
  assumes "\<And>r. r_referral_id (gr r) = r_referral_id r \<and> r_status (gr r) = r_status r \<and>
             r_urgency (gr r) = r_urgency r \<and> r_reason (gr r) = r_reason r \<and>
             r_notes (gr r) = r_notes r \<and> r_appointment_date (gr r) = r_appointment_date r \<and>
             created_at (gr r) = created_at r \<and> r_patient_id (gr r) = r_patient_id r \<and>
             r_referring_doctor_id (gr r) = r_referring_doctor_id r \<and>
             r_target_specialist_id (gr r) = r_target_specialist_id r \<and>
             r_origin_hospital_id (gr r) = r_origin_hospital_id r \<and>
             r_target_hospital_id (gr r) = r_target_hospital_id r \<and>
             r_target_department_id (gr r) = r_target_department_id r"
    and "\<And>p. pt_id (gp p) = pt_id p \<and> pt_full_name (gp p) = pt_full_name p \<and>
             pt_patient_id (gp p) = pt_patient_id p"
    and "\<And>q. pr_id (gq q) = pr_id q \<and> pr_full_name (gq q) = pr_full_name q"
    and "\<And>h. h_id (gh h) = h_id h \<and> h_name (gh h) = h_name h \<and> h_city (gh h) = h_city h \<and>
             h_state (gh h) = h_state h"
    and "\<And>d. d_id (gd d) = d_id d \<and> d_name (gd d) = d_name d \<and>
             d_description (gd d) = d_description d"
  shows "referral_public_rows UPPER
           \<lparr>tbl_profiles = map gq (tbl_profiles db), tbl_hospitals = map gh (tbl_hospitals db),
            tbl_departments = map gd (tbl_departments db), tbl_patients = map gp (tbl_patients db),
            tbl_referrals = map gr (tbl_referrals db)\<rparr> sid =
         referral_public_rows UPPER db sid"
  by (simp add: referral_public_rows_def select_list_def left_join_map o_def assms
      option.map_comp cong: if_cong)

text \<open>
  C1. For every upper-casing function \<open>UPPER\<close> and every argument, in a database
  whose referrals satisfy their foreign keys (the schema declares them, all
  \<open>NOT NULL\<close> but the target specialist), \<open>get_referral_public\<close> compares
  \<open>referral_id\<close> with the upper-cased argument. If a referral matches, the result is
  exactly one row, and each of its nineteen columns is the column the \<open>SELECT\<close> list
  names: of a matching referral, of its patient, of its referring doctor, of its
  target specialist (NULL when none is assigned), of its two hospitals and of its
  department. If none matches, the result is empty; the function is total, so there
  is no error. Two arguments with the same upper-casing, such as an identifier in
  lower and in upper case, give the same result. The result depends on no other
  column: replacing every row of every table by a row that agrees with it on the
  projected columns and on the keys of the joins leaves the result the same,
  whatever happens to \<open>specialist_notes\<close>, the medical history, addresses, phone
  numbers, e-mails or roles.
\<close>

theorem get_referral_public_result:
  assumes "referrals_fk_integrity db"
  shows "(if list_ex (\<lambda>r. sql_eq (r_referral_id r) (Some (UPPER sid))) (tbl_referrals db)
          then \<exists>r p dq sp oh th td row.
            r \<in> set (tbl_referrals db) \<and> r_referral_id r = Some (UPPER sid) \<and>
            p \<in> set (tbl_patients db) \<and> pt_id p = r_patient_id r \<and>
            dq \<in> set (tbl_profiles db) \<and> pr_id dq = r_referring_doctor_id r \<and>
            (case r_target_specialist_id r of
               None \<Rightarrow> sp = None
             | Some i \<Rightarrow> \<exists>q\<in>set (tbl_profiles db). pr_id q = i \<and> sp = Some q) \<and>
            oh \<in> set (tbl_hospitals db) \<and> h_id oh = r_origin_hospital_id r \<and>
            th \<in> set (tbl_hospitals db) \<and> h_id th = r_target_hospital_id r \<and>
            td \<in> set (tbl_departments db) \<and> d_id td = r_target_department_id r \<and>
            get_referral_public UPPER db sid = [row] \<and>
            out_referral_id row = Some (UPPER sid) \<and>
            out_status row = r_status r \<and>
            out_urgency row = r_urgency r \<and>
            out_reason row = r_reason r \<and>
            out_notes row = r_notes r \<and>
            out_appointment_date row = r_appointment_date r \<and>
            out_created_at row = created_at r \<and>
            out_patient_full_name row = pt_full_name p \<and>
            out_patient_id row = pt_patient_id p \<and>
            out_referring_doctor_name row = Some (pr_full_name dq) \<and>
            out_target_specialist_name row = map_option pr_full_name sp \<and>
            out_origin_hospital_name row = h_name oh \<and>
            out_origin_hospital_city row = h_city oh \<and>
            out_origin_hospital_state row = h_state oh \<and>
            out_target_hospital_name row = h_name th \<and>
            out_target_hospital_city row = h_city th \<and>
            out_target_hospital_state row = h_state th \<and>
            out_target_department_name row = d_name td \<and>
            out_target_department_description row = d_description td
          else get_referral_public UPPER db sid = []) \<and>
         ((\<forall>r. r_referral_id (gr r) = r_referral_id r \<and> r_status (gr r) = r_status r \<and>
               r_urgency (gr r) = r_urgency r \<and> r_reason (gr r) = r_reason r \<and>
               r_notes (gr r) = r_notes r \<and>
               r_appointment_date (gr r) = r_appointment_date r \<and>
               created_at (gr r) = created_at r \<and> r_patient_id (gr r) = r_patient_id r \<and>
               r_referring_doctor_id (gr r) = r_referring_doctor_id r \<and>
               r_target_specialist_id (gr r) = r_target_specialist_id r \<and>
               r_origin_hospital_id (gr r) = r_origin_hospital_id r \<and>
               r_target_hospital_id (gr r) = r_target_hospital_id r \<and>
               r_target_department_id (gr r) = r_target_department_id r) \<and>
          (\<forall>p. pt_id (gp p) = pt_id p \<and> pt_full_name (gp p) = pt_full_name p \<and>
               pt_patient_id (gp p) = pt_patient_id p) \<and>
          (\<forall>q. pr_id (gq q) = pr_id q \<and> pr_full_name (gq q) = pr_full_name q) \<and>
          (\<forall>h. h_id (gh h) = h_id h \<and> h_name (gh h) = h_name h \<and>
               h_city (gh h) = h_city h \<and> h_state (gh h) = h_state h) \<and>
          (\<forall>d. d_id (gd d) = d_id d \<and> d_name (gd d) = d_name d \<and>
               d_description (gd d) = d_description d) \<longrightarrow>
          get_referral_public UPPER
              \<lparr>tbl_profiles = map gq (tbl_profiles db), tbl_hospitals = map gh (tbl_hospitals db),
               tbl_departments = map gd (tbl_departments db),
               tbl_patients = map gp (tbl_patients db),
               tbl_referrals = map gr (tbl_referrals db)\<rparr> sid =
            get_referral_public UPPER db sid) \<and>
         (UPPER sid = UPPER sid' \<longrightarrow>
          get_referral_public UPPER db sid = get_referral_public UPPER db sid')"
proof (intro conjI impI)
  assume eq: "UPPER sid = UPPER sid'"
  show "get_referral_public UPPER db sid = get_referral_public UPPER db sid'"
    unfolding get_referral_public_def referral_public_rows_def eq by (rule refl)
next
  assume cols: "(\<forall>r. r_referral_id (gr r) = r_referral_id r \<and> r_status (gr r) = r_status r \<and>
               r_urgency (gr r) = r_urgency r \<and> r_reason (gr r) = r_reason r \<and>
               r_notes (gr r) = r_notes r \<and>
               r_appointment_date (gr r) = r_appointment_date r \<and>
               created_at (gr r) = created_at r \<and> r_patient_id (gr r) = r_patient_id r \<and>
               r_referring_doctor_id (gr r) = r_referring_doctor_id r \<and>
               r_target_specialist_id (gr r) = r_target_specialist_id r \<and>
               r_origin_hospital_id (gr r) = r_origin_hospital_id r \<and>
               r_target_hospital_id (gr r) = r_target_hospital_id r \<and>
               r_target_department_id (gr r) = r_target_department_id r) \<and>
          (\<forall>p. pt_id (gp p) = pt_id p \<and> pt_full_name (gp p) = pt_full_name p \<and>
               pt_patient_id (gp p) = pt_patient_id p) \<and>
          (\<forall>q. pr_id (gq q) = pr_id q \<and> pr_full_name (gq q) = pr_full_name q) \<and>
          (\<forall>h. h_id (gh h) = h_id h \<and> h_name (gh h) = h_name h \<and>
               h_city (gh h) = h_city h \<and> h_state (gh h) = h_state h) \<and>
          (\<forall>d. d_id (gd d) = d_id d \<and> d_name (gd d) = d_name d \<and>
               d_description (gd d) = d_description d)"
  show "get_referral_public UPPER
              \<lparr>tbl_profiles = map gq (tbl_profiles db), tbl_hospitals = map gh (tbl_hospitals db),
               tbl_departments = map gd (tbl_departments db),
               tbl_patients = map gp (tbl_patients db),
               tbl_referrals = map gr (tbl_referrals db)\<rparr> sid =
            get_referral_public UPPER db sid"
    unfolding get_referral_public_def
    by (subst referral_public_rows_columns) (simp_all add: cols)
next
  show "if list_ex (\<lambda>r. sql_eq (r_referral_id r) (Some (UPPER sid))) (tbl_referrals db)
          then \<exists>r p dq sp oh th td row.
            r \<in> set (tbl_referrals db) \<and> r_referral_id r = Some (UPPER sid) \<and>
            p \<in> set (tbl_patients db) \<and> pt_id p = r_patient_id r \<and>
            dq \<in> set (tbl_profiles db) \<and> pr_id dq = r_referring_doctor_id r \<and>
            (case r_target_specialist_id r of
               None \<Rightarrow> sp = None
             | Some i \<Rightarrow> \<exists>q\<in>set (tbl_profiles db). pr_id q = i \<and> sp = Some q) \<and>
            oh \<in> set (tbl_hospitals db) \<and> h_id oh = r_origin_hospital_id r \<and>
            th \<in> set (tbl_hospitals db) \<and> h_id th = r_target_hospital_id r \<and>
            td \<in> set (tbl_departments db) \<and> d_id td = r_target_department_id r \<and>
            get_referral_public UPPER db sid = [row] \<and>
            out_referral_id row = Some (UPPER sid) \<and>
            out_status row = r_status r \<and>
            out_urgency row = r_urgency r \<and>
            out_reason row = r_reason r \<and>
            out_notes row = r_notes r \<and>
            out_appointment_date row = r_appointment_date r \<and>
            out_created_at row = created_at r \<and>
            out_patient_full_name row = pt_full_name p \<and>
            out_patient_id row = pt_patient_id p \<and>
            out_referring_doctor_name row = Some (pr_full_name dq) \<and>
            out_target_specialist_name row = map_option pr_full_name sp \<and>
            out_origin_hospital_name row = h_name oh \<and>
            out_origin_hospital_city row = h_city oh \<and>
            out_origin_hospital_state row = h_state oh \<and>
            out_target_hospital_name row = h_name th \<and>
            out_target_hospital_city row = h_city th \<and>
            out_target_hospital_state row = h_state th \<and>
            out_target_department_name row = d_name td \<and>
            out_target_department_description row = d_description td
          else get_referral_public UPPER db sid = []"
  proof (cases "list_ex (\<lambda>r. sql_eq (r_referral_id r) (Some (UPPER sid))) (tbl_referrals db)")
    case False
    then show ?thesis
      using referral_public_rows_none[where UPPER = UPPER and sid = sid, OF False]
      by (simp add: get_referral_public_def)
  next
    case True
    from referral_public_rows_some[where UPPER = UPPER and sid = sid, OF assms True]
    obtain x xs where xs: "referral_public_rows UPPER db sid = x # xs"
      by (cases "referral_public_rows UPPER db sid") auto
    then have "x \<in> set (referral_public_rows UPPER db sid)" by simp
    then obtain r p d sp oh th td where j:
      "r \<in> set (tbl_referrals db)" "r_referral_id r = Some (UPPER sid)"
      "p \<in> set (tbl_patients db)" "pt_id p = r_patient_id r"
      "d \<in> set (left_join (\<lambda>d. pr_id d = r_referring_doctor_id r) (tbl_profiles db))"
      "sp \<in> set (left_join (\<lambda>s. sql_eq (Some (pr_id s)) (r_target_specialist_id r))
                   (tbl_profiles db))"
      "oh \<in> set (tbl_hospitals db)" "h_id oh = r_origin_hospital_id r"
      "th \<in> set (tbl_hospitals db)" "h_id th = r_target_hospital_id r"
      "td \<in> set (tbl_departments db)" "d_id td = r_target_department_id r"
      and x: "x = select_list r p d sp oh th td"
      unfolding set_referral_public_rows by blast
    have fk: "referral_fks_ok db r"
      using assms j(1) by (simp add: referrals_fk_integrity_def list_all_iff)
    from joined_doctor[OF fk j(5)] obtain dq
      where dq: "dq \<in> set (tbl_profiles db)" "pr_id dq = r_referring_doctor_id r" "d = Some dq"
      by blast
    note sp = joined_specialist[OF fk j(6)]
    have res: "get_referral_public UPPER db sid = [x]"
      by (simp add: get_referral_public_def xs)
    have "r \<in> set (tbl_referrals db) \<and> r_referral_id r = Some (UPPER sid) \<and>
            p \<in> set (tbl_patients db) \<and> pt_id p = r_patient_id r \<and>
            dq \<in> set (tbl_profiles db) \<and> pr_id dq = r_referring_doctor_id r \<and>
            (case r_target_specialist_id r of
               None \<Rightarrow> sp = None
             | Some i \<Rightarrow> \<exists>q\<in>set (tbl_profiles db). pr_id q = i \<and> sp = Some q) \<and>
            oh \<in> set (tbl_hospitals db) \<and> h_id oh = r_origin_hospital_id r \<and>
            th \<in> set (tbl_hospitals db) \<and> h_id th = r_target_hospital_id r \<and>
            td \<in> set (tbl_departments db) \<and> d_id td = r_target_department_id r \<and>
            get_referral_public UPPER db sid = [x] \<and>
            out_referral_id x = Some (UPPER sid) \<and>
            out_status x = r_status r \<and>
            out_urgency x = r_urgency r \<and>
            out_reason x = r_reason r \<and>
            out_notes x = r_notes r \<and>
            out_appointment_date x = r_appointment_date r \<and>
            out_created_at x = created_at r \<and>
            out_patient_full_name x = pt_full_name p \<and>
            out_patient_id x = pt_patient_id p \<and>
            out_referring_doctor_name x = Some (pr_full_name dq) \<and>
            out_target_specialist_name x = map_option pr_full_name sp \<and>
            out_origin_hospital_name x = h_name oh \<and>
            out_origin_hospital_city x = h_city oh \<and>
            out_origin_hospital_state x = h_state oh \<and>
            out_target_hospital_name x = h_name th \<and>
            out_target_hospital_city x = h_city th \<and>
            out_target_hospital_state x = h_state th \<and>
            out_target_department_name x = d_name td \<and>
            out_target_department_description x = d_description td"
      using j dq sp res by (simp add: x select_list_def)
    then have "\<exists>r p dq sp oh th td row.
            r \<in> set (tbl_referrals db) \<and> r_referral_id r = Some (UPPER sid) \<and>
            p \<in> set (tbl_patients db) \<and> pt_id p = r_patient_id r \<and>
            dq \<in> set (tbl_profiles db) \<and> pr_id dq = r_referring_doctor_id r \<and>
            (case r_target_specialist_id r of
               None \<Rightarrow> sp = None
             | Some i \<Rightarrow> \<exists>q\<in>set (tbl_profiles db). pr_id q = i \<and> sp = Some q) \<and>
            oh \<in> set (tbl_hospitals db) \<and> h_id oh = r_origin_hospital_id r \<and>
            th \<in> set (tbl_hospitals db) \<and> h_id th = r_target_hospital_id r \<and>
            td \<in> set (tbl_departments db) \<and> d_id td = r_target_department_id r \<and>
            get_referral_public UPPER db sid = [row] \<and>
            out_referral_id row = Some (UPPER sid) \<and>
            out_status row = r_status r \<and>
            out_urgency row = r_urgency r \<and>
            out_reason row = r_reason r \<and>
            out_notes row = r_notes r \<and>
            out_appointment_date row = r_appointment_date r \<and>
            out_created_at row = created_at r \<and>
            out_patient_full_name row = pt_full_name p \<and>
            out_patient_id row = pt_patient_id p \<and>
            out_referring_doctor_name row = Some (pr_full_name dq) \<and>
            out_target_specialist_name row = map_option pr_full_name sp \<and>
            out_origin_hospital_name row = h_name oh \<and>
            out_origin_hospital_city row = h_city oh \<and>
            out_origin_hospital_state row = h_state oh \<and>
            out_target_hospital_name row = h_name th \<and>
            out_target_hospital_city row = h_city th \<and>
            out_target_hospital_state row = h_state th \<and>
            out_target_department_name row = d_name td \<and>
            out_target_department_description row = d_description td"
      by blast
    then show ?thesis using True by (simp only: if_True)
  qed
qed

lemma upper_demo:
  "upper_c_locale ''ref-2025-000001'' = ''REF-2025-000001''"
  "upper_c_locale ''Ref-2025-000001'' = ''REF-2025-000001''"
  "upper_c_locale ''REF-2025-999999'' = ''REF-2025-999999''"
  by code_simp+

theorem get_referral_public_witness:
  "referrals_fk_integrity demo_db \<and>
   get_referral_public upper_c_locale demo_db ''ref-2025-000001'' =
     [\<lparr>out_referral_id = Some ''REF-2025-000001'', out_status = pending, out_urgency = medium,
       out_reason = ''murmur'', out_notes = Some ''bring scans'',
       out_appointment_date = Some 90, out_created_at = Some 3,
       out_patient_full_name = ''Pia'', out_patient_id = Some ''PAT-2025-000001'',
       out_referring_doctor_name = Some ''Dan'', out_target_specialist_name = None,
       out_origin_hospital_name = ''Alpha'', out_origin_hospital_city = ''Kampala'',
       out_origin_hospital_state = ''Central'', out_target_hospital_name = ''Beta'',
       out_target_hospital_city = ''Gulu'', out_target_hospital_state = ''Northern'',
       out_target_department_name = ''Cardiology'',
       out_target_department_description = Some ''Heart''\<rparr>] \<and>
   get_referral_public upper_c_locale
       (demo_db\<lparr>tbl_referrals := [referral_1\<lparr>r_target_specialist_id := Some 3\<rparr>]\<rparr>)
       ''Ref-2025-000001'' =
     [\<lparr>out_referral_id = Some ''REF-2025-000001'', out_status = pending, out_urgency = medium,
       out_reason = ''murmur'', out_notes = Some ''bring scans'',
       out_appointment_date = Some 90, out_created_at = Some 3,
       out_patient_full_name = ''Pia'', out_patient_id = Some ''PAT-2025-000001'',
       out_referring_doctor_name = Some ''Dan'', out_target_specialist_name = Some ''Sam'',
       out_origin_hospital_name = ''Alpha'', out_origin_hospital_city = ''Kampala'',
       out_origin_hospital_state = ''Central'', out_target_hospital_name = ''Beta'',
       out_target_hospital_city = ''Gulu'', out_target_hospital_state = ''Northern'',
       out_target_department_name = ''Cardiology'',
       out_target_department_description = Some ''Heart''\<rparr>] \<and>
   get_referral_public upper_c_locale demo_db ''REF-2025-999999'' = [] \<and>
   get_referral_public upper_c_locale
       \<lparr>tbl_profiles =
          map (\<lambda>q. q\<lparr>pr_email := [], pr_phone := None, pr_role := patient\<rparr>)
            (tbl_profiles demo_db),
        tbl_hospitals = map (\<lambda>h. h\<lparr>h_address := [], h_phone := []\<rparr>) (tbl_hospitals demo_db),
        tbl_departments = map (\<lambda>d. d\<lparr>d_head_doctor_id := None\<rparr>) (tbl_departments demo_db),
        tbl_patients =
          map (\<lambda>p. p\<lparr>pt_medical_history := None, pt_phone := None, pt_email := None,
                     pt_address := None\<rparr>)
            (tbl_patients demo_db),
        tbl_referrals =
          map (\<lambda>r. r\<lparr>r_specialist_notes := None, updated_at := None\<rparr>)
            (tbl_referrals demo_db)\<rparr>
       ''ref-2025-000001'' =
     get_referral_public upper_c_locale demo_db ''ref-2025-000001'' \<and>
   get_referral_public upper_c_locale demo_db ''ref-2025-000001'' =
     get_referral_public upper_c_locale demo_db ''Ref-2025-000001''"
proof -
  have fk: "referrals_fk_integrity demo_db"
    by (simp add: referrals_fk_integrity_def referral_fks_ok_def demo_defs)
  have no: "\<not> list_ex (\<lambda>r. sql_eq (r_referral_id r) (Some (upper_c_locale ''REF-2025-999999'')))
              (tbl_referrals demo_db)"
    unfolding upper_demo by (simp add: demo_defs)
  have none: "get_referral_public upper_c_locale demo_db ''REF-2025-999999'' = []"
    using get_referral_public_result[where db = demo_db and UPPER = upper_c_locale
        and sid = "''REF-2025-999999''", OF fk, THEN conjunct1] no
    by (simp only: if_False)
  have row: "get_referral_public upper_c_locale demo_db ''ref-2025-000001'' =
     [\<lparr>out_referral_id = Some ''REF-2025-000001'', out_status = pending, out_urgency = medium,
       out_reason = ''murmur'', out_notes = Some ''bring scans'',
       out_appointment_date = Some 90, out_created_at = Some 3,
       out_patient_full_name = ''Pia'', out_patient_id = Some ''PAT-2025-000001'',
       out_referring_doctor_name = Some ''Dan'', out_target_specialist_name = None,
       out_origin_hospital_name = ''Alpha'', out_origin_hospital_city = ''Kampala'',
       out_origin_hospital_state = ''Central'', out_target_hospital_name = ''Beta'',
       out_target_hospital_city = ''Gulu'', out_target_hospital_state = ''Northern'',
       out_target_department_name = ''Cardiology'',
       out_target_department_description = Some ''Heart''\<rparr>]"
    unfolding get_referral_public_def referral_public_rows_def upper_demo
    by (simp add: left_join_def select_list_def demo_defs)
  have sam: "get_referral_public upper_c_locale
       (demo_db\<lparr>tbl_referrals := [referral_1\<lparr>r_target_specialist_id := Some 3\<rparr>]\<rparr>)
       ''Ref-2025-000001'' =
     [\<lparr>out_referral_id = Some ''REF-2025-000001'', out_status = pending, out_urgency = medium,
       out_reason = ''murmur'', out_notes = Some ''bring scans'',
       out_appointment_date = Some 90, out_created_at = Some 3,
       out_patient_full_name = ''Pia'', out_patient_id = Some ''PAT-2025-000001'',
       out_referring_doctor_name = Some ''Dan'', out_target_specialist_name = Some ''Sam'',
       out_origin_hospital_name = ''Alpha'', out_origin_hospital_city = ''Kampala'',
       out_origin_hospital_state = ''Central'', out_target_hospital_name = ''Beta'',
       out_target_hospital_city = ''Gulu'', out_target_hospital_state = ''Northern'',
       out_target_department_name = ''Cardiology'',
       out_target_department_description = Some ''Heart''\<rparr>]"
    unfolding get_referral_public_def referral_public_rows_def upper_demo
    by (simp add: left_join_def select_list_def demo_defs)
  have same: "get_referral_public upper_c_locale
       \<lparr>tbl_profiles =
          map (\<lambda>q. q\<lparr>pr_email := [], pr_phone := None, pr_role := patient\<rparr>)
            (tbl_profiles demo_db),
        tbl_hospitals = map (\<lambda>h. h\<lparr>h_address := [], h_phone := []\<rparr>) (tbl_hospitals demo_db),
        tbl_departments = map (\<lambda>d. d\<lparr>d_head_doctor_id := None\<rparr>) (tbl_departments demo_db),
        tbl_patients =
          map (\<lambda>p. p\<lparr>pt_medical_history := None, pt_phone := None, pt_email := None,
                     pt_address := None\<rparr>)
            (tbl_patients demo_db),
        tbl_referrals =
          map (\<lambda>r. r\<lparr>r_specialist_notes := None, updated_at := None\<rparr>)
            (tbl_referrals demo_db)\<rparr>
       ''ref-2025-000001'' =
     get_referral_public upper_c_locale demo_db ''ref-2025-000001''"
    by (rule get_referral_public_result[where db = demo_db and UPPER = upper_c_locale
          and sid = "''ref-2025-000001''", OF fk, THEN conjunct2, THEN conjunct1, THEN mp])
       simp
  have cases: "get_referral_public upper_c_locale demo_db ''ref-2025-000001'' =
     get_referral_public upper_c_locale demo_db ''Ref-2025-000001''"
    by (rule get_referral_public_result[where db = demo_db and UPPER = upper_c_locale
          and sid = "''ref-2025-000001''", OF fk, THEN conjunct2, THEN conjunct2, THEN mp])
       (simp only: upper_demo)
  show ?thesis using fk row sam none same cases by (intro conjI)
qed

end
